theory Spec2Isabelle
  imports Complex_Main
begin

section \<open>JavaScript numbers\<close>

text \<open>
  The camera and the orbit controller compute with JavaScript numbers. A number is
  modelled as a real extended by the three special values of IEEE arithmetic, so that a
  division by zero yields what the program gets (an infinity or NaN) and not the value
  HOL gives to \<open>x / 0\<close>. Rounding and overflow of finite values are not modelled, and
  there is a single zero, read as \<open>+0\<close> when it is a divisor. For that reason the
  statements below about finite values are identities between the expressions the
  program evaluates, facts on which values are finite or NaN, and order facts that
  rounding to nearest preserves (a clamped value lies between its bounds; a product with
  a factor between 0 and 1 is no larger in magnitude); none depends on a finite result
  being exact.
\<close>

datatype jsnum = Fin real | PInf | NInf | NaN

fun is_fin :: "jsnum \<Rightarrow> bool" where
  "is_fin (Fin a) = True"
| "is_fin PInf = False"
| "is_fin NInf = False"
| "is_fin NaN = False"

definition inf_signed :: "real \<Rightarrow> jsnum" where
  "inf_signed a = (if 0 < a then PInf else if a < 0 then NInf else NaN)"

fun jneg :: "jsnum \<Rightarrow> jsnum" where
  "jneg (Fin a) = Fin (- a)"
| "jneg PInf = NInf"
| "jneg NInf = PInf"
| "jneg NaN = NaN"

fun jadd :: "jsnum \<Rightarrow> jsnum \<Rightarrow> jsnum" where
  "jadd (Fin a) (Fin b) = Fin (a + b)"
| "jadd (Fin a) PInf = PInf"
| "jadd (Fin a) NInf = NInf"
| "jadd PInf (Fin b) = PInf"
| "jadd NInf (Fin b) = NInf"
| "jadd PInf PInf = PInf"
| "jadd NInf NInf = NInf"
| "jadd PInf NInf = NaN"
| "jadd NInf PInf = NaN"
| "jadd NaN b = NaN"
| "jadd a NaN = NaN"

definition jsub :: "jsnum \<Rightarrow> jsnum \<Rightarrow> jsnum" where
  "jsub a b = jadd a (jneg b)"

fun jmul :: "jsnum \<Rightarrow> jsnum \<Rightarrow> jsnum" where
  "jmul (Fin a) (Fin b) = Fin (a * b)"
| "jmul (Fin a) PInf = inf_signed a"
| "jmul (Fin a) NInf = inf_signed (- a)"
| "jmul PInf (Fin b) = inf_signed b"
| "jmul NInf (Fin b) = inf_signed (- b)"
| "jmul PInf PInf = PInf"
| "jmul NInf NInf = PInf"
| "jmul PInf NInf = NInf"
| "jmul NInf PInf = NInf"
| "jmul NaN b = NaN"
| "jmul a NaN = NaN"

fun jdiv :: "jsnum \<Rightarrow> jsnum \<Rightarrow> jsnum" where
  "jdiv (Fin a) (Fin b) = (if b = 0 then inf_signed a else Fin (a / b))"
| "jdiv (Fin a) PInf = Fin 0"
| "jdiv (Fin a) NInf = Fin 0"
| "jdiv PInf (Fin b) = (if b < 0 then NInf else PInf)"
| "jdiv NInf (Fin b) = (if b < 0 then PInf else NInf)"
| "jdiv PInf PInf = NaN"
| "jdiv NInf NInf = NaN"
| "jdiv PInf NInf = NaN"
| "jdiv NInf PInf = NaN"
| "jdiv NaN b = NaN"
| "jdiv a NaN = NaN"

text \<open>\<open>Math.max\<close> and \<open>Math.min\<close> return NaN as soon as one argument is NaN.\<close>

fun jmax :: "jsnum \<Rightarrow> jsnum \<Rightarrow> jsnum" where
  "jmax (Fin a) (Fin b) = Fin (max a b)"
| "jmax NaN b = NaN"
| "jmax a NaN = NaN"
| "jmax PInf b = PInf"
| "jmax a PInf = PInf"
| "jmax NInf b = b"
| "jmax a NInf = a"

fun jmin :: "jsnum \<Rightarrow> jsnum \<Rightarrow> jsnum" where
  "jmin (Fin a) (Fin b) = Fin (min a b)"
| "jmin NaN b = NaN"
| "jmin a NaN = NaN"
| "jmin NInf b = NInf"
| "jmin a NInf = NInf"
| "jmin PInf b = b"
| "jmin a PInf = a"

text \<open>The comparison \<open>a <= b\<close>; every comparison with NaN is false.\<close>

fun jle :: "jsnum \<Rightarrow> jsnum \<Rightarrow> bool" where
  "jle (Fin a) (Fin b) = (a \<le> b)"
| "jle NaN b = False"
| "jle a NaN = False"
| "jle NInf b = True"
| "jle a PInf = True"
| "jle PInf b = False"
| "jle a NInf = False"

fun jlt :: "jsnum \<Rightarrow> jsnum \<Rightarrow> bool" where
  "jlt (Fin a) (Fin b) = (a < b)"
| "jlt NaN b = False"
| "jlt a NaN = False"
| "jlt PInf b = False"
| "jlt a NInf = False"
| "jlt NInf b = True"
| "jlt a PInf = True"

text \<open>The magnitude of a number, used to state that a value does not grow.\<close>

fun jabs :: "jsnum \<Rightarrow> jsnum" where
  "jabs (Fin a) = Fin \<bar>a\<bar>"
| "jabs PInf = PInf"
| "jabs NInf = PInf"
| "jabs NaN = NaN"

fun jsqrt :: "jsnum \<Rightarrow> jsnum" where
  "jsqrt (Fin a) = (if a < 0 then NaN else Fin (sqrt a))"
| "jsqrt PInf = PInf"
| "jsqrt NInf = NaN"
| "jsqrt NaN = NaN"

fun jsin :: "jsnum \<Rightarrow> jsnum" where
  "jsin (Fin a) = Fin (sin a)"
| "jsin PInf = NaN"
| "jsin NInf = NaN"
| "jsin NaN = NaN"

fun jcos :: "jsnum \<Rightarrow> jsnum" where
  "jcos (Fin a) = Fin (cos a)"
| "jcos PInf = NaN"
| "jcos NInf = NaN"
| "jcos NaN = NaN"

fun jacos :: "jsnum \<Rightarrow> jsnum" where
  "jacos (Fin a) = (if a < - 1 \<or> 1 < a then NaN else Fin (arccos a))"
| "jacos PInf = NaN"
| "jacos NInf = NaN"
| "jacos NaN = NaN"

text \<open>\<open>Math.atan2(y, x)\<close> on finite arguments, and its values at the infinities.\<close>

definition atan2 :: "real \<Rightarrow> real \<Rightarrow> real" where
  "atan2 y x =
     (if 0 < x then arctan (y / x)
      else if x < 0 then (if 0 \<le> y then arctan (y / x) + pi else arctan (y / x) - pi)
      else if 0 < y then pi / 2
      else if y < 0 then - (pi / 2)
      else 0)"

fun jatan2 :: "jsnum \<Rightarrow> jsnum \<Rightarrow> jsnum" where
  "jatan2 (Fin y) (Fin x) = Fin (atan2 y x)"
| "jatan2 (Fin y) PInf = Fin 0"
| "jatan2 (Fin y) NInf = (if y < 0 then Fin (- pi) else Fin pi)"
| "jatan2 PInf (Fin x) = Fin (pi / 2)"
| "jatan2 NInf (Fin x) = Fin (- (pi / 2))"
| "jatan2 PInf PInf = Fin (pi / 4)"
| "jatan2 PInf NInf = Fin (3 * pi / 4)"
| "jatan2 NInf PInf = Fin (- (pi / 4))"
| "jatan2 NInf NInf = Fin (- (3 * pi / 4))"
| "jatan2 NaN x = NaN"
| "jatan2 y NaN = NaN"

text \<open>\<open>Math.pow(b, z)\<close> for a finite base \<open>0 < b < 1\<close> (the program uses \<open>0.95\<close>).\<close>

fun jpow_frac :: "real \<Rightarrow> jsnum \<Rightarrow> jsnum" where
  "jpow_frac b (Fin z) = Fin (b powr z)"
| "jpow_frac b PInf = Fin 0"
| "jpow_frac b NInf = PInf"
| "jpow_frac b NaN = NaN"

text \<open>
  The idiom \<open>options.x || d\<close>: the default \<open>d\<close> replaces \<open>options.x\<close> when it is
  undefined (\<open>None\<close>) or falsy; the falsy numbers are zero and NaN.
\<close>

fun num_or :: "jsnum option \<Rightarrow> jsnum \<Rightarrow> jsnum" where
  "num_or None d = d"
| "num_or (Some v) d = (if v = Fin 0 \<or> v = NaN then d else v)"

fun val_or :: "'a option \<Rightarrow> 'a \<Rightarrow> 'a" where
  "val_or None d = d"
| "val_or (Some v) d = v"

fun str_or :: "string option \<Rightarrow> string \<Rightarrow> string" where
  "str_or None d = d"
| "str_or (Some v) d = (if v = [] then d else v)"

type_synonym vec3 = "jsnum \<times> jsnum \<times> jsnum"

text \<open>The canvas element of the engine: its drawing size and its layout size.\<close>

record canvas =
  width :: jsnum
  height :: jsnum
  clientWidth :: jsnum
  clientHeight :: jsnum

section \<open>Camera (src/render/Camera.js)\<close>

datatype aspect = Auto | Ratio jsnum

fun aspect_or_auto :: "jsnum option \<Rightarrow> aspect" where
  "aspect_or_auto None = Auto"
| "aspect_or_auto (Some v) = (if v = Fin 0 \<or> v = NaN then Auto else Ratio v)"

record camera_options =
  opt_type :: "string option"
  opt_position :: "vec3 option"
  opt_target :: "vec3 option"
  opt_up :: "vec3 option"
  opt_fov :: "jsnum option"
  opt_aspectRatio :: "jsnum option"
  opt_nearPlane :: "jsnum option"
  opt_farPlane :: "jsnum option"
  opt_size :: "jsnum option"

text \<open>
  The fields of a \<open>Camera\<close>. A matrix is a \<open>Float32Array(16)\<close>, a list of sixteen
  numbers. \<open>viewUpdates\<close> is not a field of the class: it counts the calls of
  \<open>updateViewMatrix\<close>, the place where the view matrix is to be rebuilt.
\<close>

record camera =
  cam_type :: string
  position :: vec3
  target :: vec3
  up :: vec3
  fov :: jsnum
  aspectRatio :: aspect
  nearPlane :: jsnum
  farPlane :: jsnum
  cam_size :: jsnum
  viewMatrix :: "jsnum list"
  projectionMatrix :: "jsnum list"
  viewProjectionMatrix :: "jsnum list"
  viewDirty :: bool
  projectionDirty :: bool
  viewUpdates :: nat

definition Float32Array16 :: "jsnum list" where
  "Float32Array16 = replicate 16 (Fin 0)"

definition Camera_new :: "camera_options \<Rightarrow> camera" where
  "Camera_new options =
     \<lparr> cam_type = str_or (opt_type options) ''perspective'',
       position = val_or (opt_position options) (Fin 0, Fin 0, Fin 5),
       target = val_or (opt_target options) (Fin 0, Fin 0, Fin 0),
       up = val_or (opt_up options) (Fin 0, Fin 1, Fin 0),
       fov = num_or (opt_fov options) (Fin 60),
       aspectRatio = aspect_or_auto (opt_aspectRatio options),
       nearPlane = num_or (opt_nearPlane options) (Fin (1 / 10)),
       farPlane = num_or (opt_farPlane options) (Fin 1000),
       cam_size = num_or (opt_size options) (Fin 10),
       viewMatrix = Float32Array16,
       projectionMatrix = Float32Array16,
       viewProjectionMatrix = Float32Array16,
       viewDirty = True,
       projectionDirty = True,
       viewUpdates = 0 \<rparr>"

definition setPosition :: "jsnum \<Rightarrow> jsnum \<Rightarrow> jsnum \<Rightarrow> camera \<Rightarrow> camera" where
  "setPosition x y z c = c\<lparr>position := (x, y, z), viewDirty := True\<rparr>"

definition setTarget :: "jsnum \<Rightarrow> jsnum \<Rightarrow> jsnum \<Rightarrow> camera \<Rightarrow> camera" where
  "setTarget x y z c = c\<lparr>target := (x, y, z), viewDirty := True\<rparr>"

definition lookAt :: "jsnum \<Rightarrow> jsnum \<Rightarrow> jsnum \<Rightarrow> camera \<Rightarrow> camera" where
  "lookAt x y z c = c\<lparr>target := (x, y, z), viewDirty := True\<rparr>"

text \<open>
  \<open>updateViewMatrix\<close> computes nothing (the look-at computation is a comment left to
  do); it clears the flag.
\<close>

definition updateViewMatrix :: "camera \<Rightarrow> camera" where
  "updateViewMatrix c = c\<lparr>viewDirty := False, viewUpdates := Suc (viewUpdates c)\<rparr>"

definition getViewMatrix :: "camera \<Rightarrow> jsnum list \<times> camera" where
  "getViewMatrix c =
     (let c' = (if viewDirty c then updateViewMatrix c else c) in (viewMatrix c', c'))"

text \<open>
  \<open>updateProjectionMatrix\<close> derives the aspect ratio and, for an orthographic camera,
  the half extents, and stores none of them: both matrix computations are comments.
\<close>

definition updateProjectionMatrix :: "canvas \<Rightarrow> camera \<Rightarrow> camera" where
  "updateProjectionMatrix cv c =
     (let aspect = (case aspectRatio c of Auto \<Rightarrow> jdiv (width cv) (height cv) | Ratio a \<Rightarrow> a);
          halfSize = jdiv (cam_size c) (Fin 2);
          halfWidth = jmul halfSize aspect
      in c\<lparr>projectionDirty := False\<rparr>)"

definition getProjectionMatrix :: "canvas \<Rightarrow> camera \<Rightarrow> jsnum list \<times> camera" where
  "getProjectionMatrix cv c =
     (let c' = (if projectionDirty c then updateProjectionMatrix cv c else c)
      in (projectionMatrix c', c'))"

definition getViewProjectionMatrix :: "canvas \<Rightarrow> camera \<Rightarrow> jsnum list \<times> camera" where
  "getViewProjectionMatrix cv c =
     (let (view, c1) = getViewMatrix c;
          (projection, c2) = getProjectionMatrix cv c1
      in (viewProjectionMatrix c2, c2))"

definition resize :: "camera \<Rightarrow> camera" where
  "resize c = (if aspectRatio c = Auto then c\<lparr>projectionDirty := True\<rparr> else c)"

section \<open>OrbitControls\<close>

record spherical_t =
  radius :: jsnum
  phi :: jsnum
  theta :: jsnum

record orbit_options =
  o_target :: "vec3 option"
  o_minDistance :: "jsnum option"
  o_maxDistance :: "jsnum option"
  o_minPolarAngle :: "jsnum option"
  o_maxPolarAngle :: "jsnum option"
  o_minAzimuthAngle :: "jsnum option"
  o_maxAzimuthAngle :: "jsnum option"
  o_rotateSpeed :: "jsnum option"
  o_zoomSpeed :: "jsnum option"
  o_panSpeed :: "jsnum option"
  o_enableDamping :: "bool option"
  o_dampingFactor :: "jsnum option"
  o_enableZoom :: "bool option"
  o_enableRotate :: "bool option"
  o_enablePan :: "bool option"
  o_autoRotate :: "bool option"
  o_autoRotateSpeed :: "jsnum option"

text \<open>
  The state of an \<open>OrbitControls\<close>. The controller keeps a reference to its camera;
  the functions below that read or write the camera take it and return it. The arrays
  \<open>target\<close> and \<open>panOffset\<close> of the controller and \<open>position\<close> and \<open>target\<close> of the
  camera are values here: they are taken to be four distinct array objects, as they are
  when the constructors make them.
\<close>

record orbit =
  orbit_target :: vec3
  minDistance :: jsnum
  maxDistance :: jsnum
  minPolarAngle :: jsnum
  maxPolarAngle :: jsnum
  minAzimuthAngle :: jsnum
  maxAzimuthAngle :: jsnum
  rotateSpeed :: jsnum
  zoomSpeed :: jsnum
  panSpeed :: jsnum
  enableDamping :: bool
  dampingFactor :: jsnum
  spherical :: spherical_t
  sphericalDelta :: spherical_t
  scale :: jsnum
  panOffset :: vec3
  zoomChanged :: bool
  enableZoom :: bool
  enableRotate :: bool
  enablePan :: bool
  autoRotate :: bool
  autoRotateSpeed :: jsnum

definition updateSphericalFromCamera :: "orbit \<Rightarrow> camera \<Rightarrow> orbit" where
  "updateSphericalFromCamera s c =
     (case position c of (p0, p1, p2) \<Rightarrow>
      case orbit_target s of (t0, t1, t2) \<Rightarrow>
        let o0 = jsub p0 t0; o1 = jsub p1 t1; o2 = jsub p2 t2;
            r = jsqrt (jadd (jadd (jmul o0 o0) (jmul o1 o1)) (jmul o2 o2))
        in s\<lparr>spherical :=
                \<lparr> radius = r,
                  phi = jacos (jmin (jmax (jdiv o1 r) (Fin (- 1))) (Fin 1)),
                  theta = jatan2 o0 o2 \<rparr>\<rparr>)"

definition OrbitControls_new :: "camera \<Rightarrow> orbit_options \<Rightarrow> orbit" where
  "OrbitControls_new c options =
     updateSphericalFromCamera
       \<lparr> orbit_target = val_or (o_target options) (Fin 0, Fin 0, Fin 0),
         minDistance = num_or (o_minDistance options) (Fin 1),
         maxDistance = num_or (o_maxDistance options) (Fin 100),
         minPolarAngle = num_or (o_minPolarAngle options) (Fin (1 / 10)),
         maxPolarAngle = num_or (o_maxPolarAngle options) (jsub (Fin pi) (Fin (1 / 10))),
         minAzimuthAngle = num_or (o_minAzimuthAngle options) NInf,
         maxAzimuthAngle = num_or (o_maxAzimuthAngle options) PInf,
         rotateSpeed = num_or (o_rotateSpeed options) (Fin 1),
         zoomSpeed = num_or (o_zoomSpeed options) (Fin 1),
         panSpeed = num_or (o_panSpeed options) (Fin 1),
         enableDamping = val_or (o_enableDamping options) True,
         dampingFactor = num_or (o_dampingFactor options) (Fin (5 / 100)),
         spherical = \<lparr> radius = Fin 0, phi = Fin 0, theta = Fin 0 \<rparr>,
         sphericalDelta = \<lparr> radius = Fin 0, phi = Fin 0, theta = Fin 0 \<rparr>,
         scale = Fin 1,
         panOffset = (Fin 0, Fin 0, Fin 0),
         zoomChanged = False,
         enableZoom = val_or (o_enableZoom options) True,
         enableRotate = val_or (o_enableRotate options) True,
         enablePan = val_or (o_enablePan options) True,
         autoRotate = val_or (o_autoRotate options) False,
         autoRotateSpeed = num_or (o_autoRotateSpeed options) (Fin 2) \<rparr>
       c"

definition updateCameraFromSpherical :: "orbit \<Rightarrow> camera \<Rightarrow> camera" where
  "updateCameraFromSpherical s c =
     (case orbit_target s of (t0, t1, t2) \<Rightarrow>
      case panOffset s of (q0, q1, q2) \<Rightarrow>
        let r = radius (spherical s); ph = phi (spherical s); th = theta (spherical s);
            sinPhiRadius = jmul r (jsin ph);
            x = jadd (jmul sinPhiRadius (jsin th)) (jadd t0 q0);
            y = jadd (jmul r (jcos ph)) (jadd t1 q1);
            z = jadd (jmul sinPhiRadius (jcos th)) (jadd t2 q2)
        in lookAt t0 t1 t2 (setPosition x y z c))"

definition handleRotate :: "canvas \<Rightarrow> jsnum \<Rightarrow> jsnum \<Rightarrow> orbit \<Rightarrow> orbit" where
  "handleRotate element deltaX deltaY s =
     (let d = sphericalDelta s;
          th = jsub (theta d)
                 (jmul (jdiv (jmul (jmul (Fin 2) (Fin pi)) deltaX) (clientWidth element))
                    (rotateSpeed s));
          ph = jsub (phi d)
                 (jmul (jdiv (jmul (jmul (Fin 2) (Fin pi)) deltaY) (clientHeight element))
                    (rotateSpeed s))
      in s\<lparr>sphericalDelta := d\<lparr>theta := th, phi := ph\<rparr>\<rparr>)"

definition handleZoom :: "jsnum \<Rightarrow> orbit \<Rightarrow> orbit" where
  "handleZoom delta s =
     (let s' = (if jlt (Fin 0) delta
                then s\<lparr>scale := jdiv (scale s) (jpow_frac (95 / 100) (zoomSpeed s))\<rparr>
                else if jlt delta (Fin 0)
                then s\<lparr>scale := jmul (scale s) (jpow_frac (95 / 100) (zoomSpeed s))\<rparr>
                else s)
      in s'\<lparr>zoomChanged := True\<rparr>)"

definition handlePan :: "canvas \<Rightarrow> jsnum \<Rightarrow> jsnum \<Rightarrow> orbit \<Rightarrow> camera \<Rightarrow> orbit" where
  "handlePan element deltaX0 deltaY0 s c =
     (case orbit_target s of (t0, t1, t2) \<Rightarrow>
      case position c of (p0, p1, p2) \<Rightarrow>
      case panOffset s of (q0, q1, q2) \<Rightarrow>
        let distance = radius (spherical s);
            deltaX = jdiv (jmul deltaX0 (jmul distance (Fin 2))) (clientWidth element);
            deltaY = jdiv (jmul deltaY0 (jmul distance (Fin 2))) (clientHeight element);
            g0 = jsub t0 p0; g1 = jsub t1 p1; g2 = jsub t2 p2;
            len = jsqrt (jadd (jadd (jmul g0 g0) (jmul g1 g1)) (jmul g2 g2));
            f0 = jdiv g0 len; f1 = jdiv g1 len; f2 = jdiv g2 len;
            u0 = Fin 0; u1 = Fin 1; u2 = Fin 0;
            r0 = jsub (jmul f1 u2) (jmul f2 u1);
            r1 = jsub (jmul f2 u0) (jmul f0 u2);
            r2 = jsub (jmul f0 u1) (jmul f1 u0);
            ps = panSpeed s
        in s\<lparr>panOffset :=
               (jadd q0 (jsub (jmul (jmul r0 deltaX) ps) (jmul (jmul f0 deltaY) ps)),
                jadd q1 (jsub (jmul (jmul r1 deltaX) ps) (jmul (jmul f1 deltaY) ps)),
                jadd q2 (jsub (jmul (jmul r2 deltaX) ps) (jmul (jmul f2 deltaY) ps)))\<rparr>)"

text \<open>
  \<open>update(deltaTime = 0.016)\<close>, one definition for each commented block of the method,
  in the order of the source.
\<close>

definition apply_auto_rotation :: "jsnum \<Rightarrow> orbit \<Rightarrow> orbit" where
  "apply_auto_rotation deltaTime s =
     (if autoRotate s
      then s\<lparr>sphericalDelta := (sphericalDelta s)
               \<lparr>theta := jsub (theta (sphericalDelta s))
                  (jmul (jmul (jdiv (jdiv (jmul (Fin 2) (Fin pi)) (Fin 60)) (Fin 60))
                     (autoRotateSpeed s)) deltaTime)\<rparr>\<rparr>
      else s)"

definition apply_spherical_delta :: "orbit \<Rightarrow> orbit" where
  "apply_spherical_delta s =
     s\<lparr>spherical := (spherical s)
         \<lparr>theta := jadd (theta (spherical s)) (theta (sphericalDelta s)),
          phi := jadd (phi (spherical s)) (phi (sphericalDelta s))\<rparr>\<rparr>"

definition restrict_phi :: "orbit \<Rightarrow> orbit" where
  "restrict_phi s =
     s\<lparr>spherical := (spherical s)
         \<lparr>phi := jmax (minPolarAngle s) (jmin (maxPolarAngle s) (phi (spherical s)))\<rparr>\<rparr>"

definition restrict_theta :: "orbit \<Rightarrow> orbit" where
  "restrict_theta s =
     s\<lparr>spherical := (spherical s)
         \<lparr>theta := jmax (minAzimuthAngle s) (jmin (maxAzimuthAngle s) (theta (spherical s)))\<rparr>\<rparr>"

definition apply_damping :: "orbit \<Rightarrow> orbit" where
  "apply_damping s =
     (if enableDamping s
      then s\<lparr>sphericalDelta := (sphericalDelta s)
               \<lparr>theta := jmul (theta (sphericalDelta s)) (jsub (Fin 1) (dampingFactor s)),
                phi := jmul (phi (sphericalDelta s)) (jsub (Fin 1) (dampingFactor s))\<rparr>\<rparr>
      else s\<lparr>sphericalDelta := (sphericalDelta s)\<lparr>theta := Fin 0, phi := Fin 0\<rparr>\<rparr>)"

definition apply_zoom :: "orbit \<Rightarrow> orbit" where
  "apply_zoom s =
     (if zoomChanged s
      then s\<lparr>spherical := (spherical s)
               \<lparr>radius := jmax (minDistance s)
                  (jmin (maxDistance s) (jdiv (radius (spherical s)) (scale s)))\<rparr>,
             scale := Fin 1,
             zoomChanged := False\<rparr>
      else s)"

definition reset_pan_offset :: "orbit \<Rightarrow> orbit" where
  "reset_pan_offset s =
     (if enableDamping s
      then (case panOffset s of (q0, q1, q2) \<Rightarrow>
              s\<lparr>panOffset := (jmul q0 (jsub (Fin 1) (dampingFactor s)),
                               jmul q1 (jsub (Fin 1) (dampingFactor s)),
                               jmul q2 (jsub (Fin 1) (dampingFactor s)))\<rparr>)
      else s\<lparr>panOffset := (Fin 0, Fin 0, Fin 0)\<rparr>)"

definition OrbitControls_update :: "jsnum option \<Rightarrow> orbit \<Rightarrow> camera \<Rightarrow> orbit \<times> camera" where
  "OrbitControls_update dt s c =
     (let deltaTime = val_or dt (Fin (16 / 1000));
          s1 = apply_zoom (apply_damping (restrict_theta (restrict_phi
                 (apply_spherical_delta (apply_auto_rotation deltaTime s)))))
      in (reset_pan_offset s1, updateCameraFromSpherical s1 c))"

section \<open>The camera with its controls\<close>

text \<open>
  \<open>camera.controls\<close> refers to the controller and the controller refers back to the
  camera; the pair of both is the state that \<open>Camera.update\<close> works on.
\<close>

record rig =
  cam :: camera
  controls :: "orbit option"

definition createOrbitControls :: "orbit_options \<Rightarrow> rig \<Rightarrow> rig" where
  "createOrbitControls options r = r\<lparr>controls := Some (OrbitControls_new (cam r) options)\<rparr>"

definition Camera_update :: "jsnum option \<Rightarrow> rig \<Rightarrow> rig" where
  "Camera_update deltaTime r =
     (let r' = (case controls r of
                  None \<Rightarrow> r
                | Some s \<Rightarrow>
                    (case OrbitControls_update deltaTime s (cam r) of
                       (s', c') \<Rightarrow> r\<lparr>cam := c', controls := Some s'\<rparr>))
      in r'\<lparr>cam := (cam r')\<lparr>viewDirty := True\<rparr>\<rparr>)"

text \<open>
  Calling a method by its name, \<open>camera[name](x, y, z)\<close>, for the methods that take three
  coordinates. The class defines the methods listed in \<open>Camera_methods\<close> and no other;
  a name outside the list is undefined on the object and the call raises a TypeError.
\<close>

datatype call_error = NotAFunction | OtherSignature

definition Camera_methods :: "string list" where
  "Camera_methods =
     [''setPosition'', ''setTarget'', ''lookAt'', ''getViewMatrix'', ''getProjectionMatrix'',
      ''getViewProjectionMatrix'', ''updateViewMatrix'', ''updateProjectionMatrix'',
      ''updateFrustum'', ''resize'', ''createOrbitControls'', ''update'']"

definition Camera_call3 ::
  "string \<Rightarrow> jsnum \<Rightarrow> jsnum \<Rightarrow> jsnum \<Rightarrow> camera \<Rightarrow> call_error + camera" where
  "Camera_call3 name x y z c =
     (if name = ''setPosition'' then Inr (setPosition x y z c)
      else if name = ''setTarget'' then Inr (setTarget x y z c)
      else if name = ''lookAt'' then Inr (lookAt x y z c)
      else if name \<in> set Camera_methods then Inl OtherSignature
      else Inl NotAFunction)"

section \<open>Renderer.render (src/render/Renderer.js)\<close>

text \<open>
  A frame is modelled by the trace of the calls it makes to the GPU device, the pass
  encoder, the scene and the console, in program order. GPU objects are handles
  (natural numbers); an undefined or null reference is \<open>None\<close>. An exception is a value.
\<close>

datatype js_error = TypeError | Thrown string

datatype outcome = Returned | Raised js_error

datatype event =
    DestroyTexture nat
  | CreateTexture nat
  | SceneUpdate
  | WriteBuffer "nat option"
  | ConsoleError string
  | ConsoleLog string
  | CreateCommandEncoder
  | BeginRenderPass nat nat
  | SetViewport
  | SetScissorRect
  | SetPipeline nat
  | SetBindGroup nat "nat option"
  | SetVertexBuffer "nat option"
  | SetIndexBuffer "nat option"
  | DrawIndexed nat
  | EndPass
  | Finish
  | Submit

text \<open>The events that record a command into the frame's encoder or submit it.\<close>

fun is_command :: "event \<Rightarrow> bool" where
  "is_command CreateCommandEncoder = True"
| "is_command (BeginRenderPass c d) = True"
| "is_command SetViewport = True"
| "is_command SetScissorRect = True"
| "is_command (SetPipeline p) = True"
| "is_command (SetBindGroup i g) = True"
| "is_command (SetVertexBuffer b) = True"
| "is_command (SetIndexBuffer b) = True"
| "is_command (DrawIndexed n) = True"
| "is_command EndPass = True"
| "is_command Finish = True"
| "is_command Submit = True"
| "is_command e = False"

record transform_t =
  t_position :: vec3
  t_scale :: "vec3 option"

record mesh_t =
  vertexBuffer :: "nat option"
  indexBuffer :: "nat option"
  indexCount :: nat

record material_t =
  mat_type :: string
  pipeline :: "nat option"
  mat_modelUniformBuffer :: "nat option"
  mat_modelBindGroup :: "nat option"
  bindGroup :: "nat option"

record meshRenderer_t =
  mesh :: "mesh_t option"
  material :: "material_t option"
  modelUniformBuffer :: "nat option"
  modelBindGroup :: "nat option"
  materialBindGroup :: "nat option"

text \<open>An entity, as the loop sees it: the results of its two \<open>getComponent\<close> calls.\<close>

record entity =
  meshRendererComponent :: "meshRenderer_t option"
  transformComponent :: "transform_t option"

text \<open>
  Both \<open>updateModelUniforms\<close> methods read \<open>transform.scale\<close> first, which raises a
  TypeError on an undefined transform, and end in one \<open>queue.writeBuffer\<close>. The method
  of a material returns at once when it has no model uniform buffer.
\<close>

definition material_updateModelUniforms ::
  "material_t \<Rightarrow> transform_t option \<Rightarrow> js_error + event list" where
  "material_updateModelUniforms m tr =
     (case mat_modelUniformBuffer m of
        None \<Rightarrow> Inr []
      | Some b \<Rightarrow> (case tr of None \<Rightarrow> Inl TypeError | Some t \<Rightarrow> Inr [WriteBuffer (Some b)]))"

definition meshRenderer_updateModelUniforms ::
  "meshRenderer_t \<Rightarrow> transform_t option \<Rightarrow> js_error + event list" where
  "meshRenderer_updateModelUniforms mr tr =
     (case tr of None \<Rightarrow> Inl TypeError | Some t \<Rightarrow> Inr [WriteBuffer (modelUniformBuffer mr)])"

record renderer =
  r_canvas :: canvas
  depthTexture :: "nat option"
  depthTextureView :: "nat option"
  basicPipeline :: nat
  cameraBindGroup :: nat
  cameraUniformBuffer :: nat
  next_handle :: nat

text \<open>What one frame gets from outside the renderer.\<close>

record frame =
  devicePixelRatio :: jsnum
  sceneUpdate :: "js_error option"
  currentTexture :: "js_error + nat option"
  meshEntities :: "entity list"

text \<open>The body of the loop over the mesh entities; \<open>Inr\<close> also when the entity is skipped.\<close>

definition draw_finish :: "mesh_t \<Rightarrow> event list" where
  "draw_finish g =
     [SetVertexBuffer (vertexBuffer g), SetIndexBuffer (indexBuffer g), DrawIndexed (indexCount g)]"

definition draw_entity :: "renderer \<Rightarrow> entity \<Rightarrow> js_error + event list" where
  "draw_entity r e =
     (case meshRendererComponent e of
        None \<Rightarrow> Inr []
      | Some mr \<Rightarrow>
        (case mesh mr of
           None \<Rightarrow> Inr []
         | Some g \<Rightarrow>
           (case material mr of
              None \<Rightarrow> Inr []
            | Some m \<Rightarrow>
                if mat_type m = ''cubemap'' \<or> mat_type m = ''standard''
                then (case material_updateModelUniforms m (transformComponent e) of
                        Inl err \<Rightarrow> Inl err
                      | Inr w \<Rightarrow>
                          (case pipeline m of
                             Some p \<Rightarrow>
                               Inr (w @ [SetPipeline p,
                                         SetBindGroup 0 (Some (cameraBindGroup r)),
                                         SetBindGroup 1 (mat_modelBindGroup m),
                                         SetBindGroup 2 (bindGroup m)] @ draw_finish g)
                           | None \<Rightarrow>
                               Inr (w @ [ConsoleError (mat_type m @ '' material has no pipeline'')])))
                else (case meshRenderer_updateModelUniforms mr (transformComponent e) of
                        Inl err \<Rightarrow> Inl err
                      | Inr w \<Rightarrow>
                          Inr (w @ [SetPipeline (basicPipeline r),
                                    SetBindGroup 0 (Some (cameraBindGroup r)),
                                    SetBindGroup 1 (modelBindGroup mr),
                                    SetBindGroup 2 (materialBindGroup mr)] @ draw_finish g)))))"

text \<open>The guard of the loop that skips an entity: \<open>!meshRenderer || !meshRenderer.mesh || !meshRenderer.material\<close>.\<close>

definition missing_reference :: "entity \<Rightarrow> bool" where
  "missing_reference e =
     (case meshRendererComponent e of
        None \<Rightarrow> True
      | Some mr \<Rightarrow> mesh mr = None \<or> material mr = None)"

text \<open>The loop: the events recorded, and the exception that ended it, if any.\<close>

fun draw_loop :: "renderer \<Rightarrow> entity list \<Rightarrow> event list \<times> js_error option" where
  "draw_loop r [] = ([], None)"
| "draw_loop r (e # es) =
     (case draw_entity r e of
        Inl err \<Rightarrow> ([], Some err)
      | Inr evs \<Rightarrow> (case draw_loop r es of (rest, x) \<Rightarrow> (evs @ rest, x)))"

text \<open>\<open>a !== b\<close> on numbers: NaN differs from every number, itself included.\<close>

definition strict_neq :: "jsnum \<Rightarrow> jsnum \<Rightarrow> bool" where
  "strict_neq a b = (if a = NaN \<or> b = NaN then True else a \<noteq> b)"

definition createDepthTexture :: "renderer \<Rightarrow> renderer \<times> event list" where
  "createDepthTexture r =
     (r\<lparr>depthTexture := Some (next_handle r),
        depthTextureView := Some (Suc (next_handle r)),
        next_handle := next_handle r + 2\<rparr>,
      [CreateTexture (next_handle r)])"

definition Renderer_resize :: "jsnum \<Rightarrow> renderer \<Rightarrow> renderer \<times> event list" where
  "Renderer_resize dpr r =
     (let w = jmul (clientWidth (r_canvas r)) dpr;
          h = jmul (clientHeight (r_canvas r)) dpr
      in if strict_neq (width (r_canvas r)) w \<or> strict_neq (height (r_canvas r)) h
         then (case createDepthTexture (r\<lparr>r_canvas := (r_canvas r)\<lparr>width := w, height := h\<rparr>\<rparr>) of
                 (r', evs) \<Rightarrow>
                   (r', (case depthTexture r of None \<Rightarrow> [] | Some t \<Rightarrow> [DestroyTexture t]) @ evs))
         else (r, []))"

text \<open>The body of the \<open>try\<close> block of \<open>render\<close>.\<close>

definition render_try :: "renderer \<Rightarrow> frame \<Rightarrow> event list \<times> js_error option" where
  "render_try r f =
     (case currentTexture f of
        Inl err \<Rightarrow> ([], Some err)
      | Inr None \<Rightarrow> ([ConsoleError ''No current texture available.''], None)
      | Inr (Some tex) \<Rightarrow>
        (case depthTextureView r of
           None \<Rightarrow> ([ConsoleError ''Depth texture view is invalid.''], None)
         | Some dv \<Rightarrow>
           (case draw_loop r (meshEntities f) of
              (evs, x) \<Rightarrow>
                let head = [CreateCommandEncoder, BeginRenderPass tex dv, SetViewport,
                            SetScissorRect, SetPipeline (basicPipeline r),
                            SetBindGroup 0 (Some (cameraBindGroup r))]
                in (case x of
                      Some err \<Rightarrow> (head @ evs, Some err)
                    | None \<Rightarrow>
                        (head @ evs @
                           [EndPass, Finish, ConsoleLog ''Command buffer finished'', Submit],
                         None)))))"

text \<open>
  \<open>render(scene, camera)\<close> on an initialised renderer: the resize check,
  \<open>scene.update\<close> and the upload of the camera uniforms come before the \<open>try\<close>, so
  an exception of \<open>scene.update\<close> leaves \<open>render\<close>; what the \<open>try\<close> block raises
  is caught and logged.
\<close>

definition render :: "renderer \<Rightarrow> frame \<Rightarrow> renderer \<times> event list \<times> outcome" where
  "render r f =
     (case Renderer_resize (devicePixelRatio f) r of
        (r1, ev_resize) \<Rightarrow>
          (case sceneUpdate f of
             Some err \<Rightarrow> (r1, ev_resize, Raised err)
           | None \<Rightarrow>
               let pre = ev_resize @ [SceneUpdate, WriteBuffer (Some (cameraUniformBuffer r1))]
               in (case render_try r1 f of
                     (evs, None) \<Rightarrow> (r1, pre @ evs, Returned)
                   | (evs, Some err) \<Rightarrow>
                       (r1, pre @ evs @ [ConsoleError ''Render pass error:''], Returned))))"

section \<open>Inputs and drivers used in the statements\<close>

text \<open>The options object \<open>{}\<close>: every option undefined.\<close>

definition camera_defaults :: camera_options where
  "camera_defaults =
     \<lparr> opt_type = None, opt_position = None, opt_target = None, opt_up = None,
       opt_fov = None, opt_aspectRatio = None, opt_nearPlane = None, opt_farPlane = None,
       opt_size = None \<rparr>"

definition orbit_defaults :: orbit_options where
  "orbit_defaults =
     \<lparr> o_target = None, o_minDistance = None, o_maxDistance = None,
       o_minPolarAngle = None, o_maxPolarAngle = None, o_minAzimuthAngle = None,
       o_maxAzimuthAngle = None, o_rotateSpeed = None, o_zoomSpeed = None,
       o_panSpeed = None, o_enableDamping = None, o_dampingFactor = None,
       o_enableZoom = None, o_enableRotate = None, o_enablePan = None,
       o_autoRotate = None, o_autoRotateSpeed = None \<rparr>"

text \<open>
  Sample controllers: the default camera at \<open>(0, 0, 5)\<close> with default controls, with
  auto-rotation, without damping, with \<open>dampingFactor: 1\<close>, with \<open>minPolarAngle: 4\<close>
  (above the default \<open>maxPolarAngle\<close>), with \<open>minDistance: 200\<close> (above the default
  \<open>maxDistance\<close>) and with \<open>zoomSpeed: Infinity\<close>; a camera at \<open>(0, 0, 200)\<close> with
  default controls; and a canvas that is not laid out, of client size zero.
\<close>

definition sample_camera :: camera where
  "sample_camera = Camera_new camera_defaults"

definition sample_controls :: orbit where
  "sample_controls = OrbitControls_new sample_camera orbit_defaults"

definition auto_rotating_controls :: orbit where
  "auto_rotating_controls =
     OrbitControls_new sample_camera (orbit_defaults\<lparr>o_autoRotate := Some True\<rparr>)"

definition undamped_controls :: orbit where
  "undamped_controls =
     OrbitControls_new sample_camera (orbit_defaults\<lparr>o_enableDamping := Some False\<rparr>)"

definition fully_damped_controls :: orbit where
  "fully_damped_controls =
     OrbitControls_new sample_camera (orbit_defaults\<lparr>o_dampingFactor := Some (Fin 1)\<rparr>)"

definition inverted_polar_controls :: orbit where
  "inverted_polar_controls =
     OrbitControls_new sample_camera (orbit_defaults\<lparr>o_minPolarAngle := Some (Fin 4)\<rparr>)"

definition inverted_distance_controls :: orbit where
  "inverted_distance_controls =
     OrbitControls_new sample_camera (orbit_defaults\<lparr>o_minDistance := Some (Fin 200)\<rparr>)"

definition unbounded_zoom_controls :: orbit where
  "unbounded_zoom_controls =
     OrbitControls_new sample_camera (orbit_defaults\<lparr>o_zoomSpeed := Some PInf\<rparr>)"

definition far_camera :: camera where
  "far_camera = Camera_new (camera_defaults\<lparr>opt_position := Some (Fin 0, Fin 0, Fin 200)\<rparr>)"

definition far_controls :: orbit where
  "far_controls = OrbitControls_new far_camera orbit_defaults"

definition hidden_canvas :: canvas where
  "hidden_canvas = \<lparr> width = Fin 0, height = Fin 0, clientWidth = Fin 0, clientHeight = Fin 0 \<rparr>"

text \<open>A sequence of rotate drags: \<open>handleRotate\<close> once for each pair of deltas.\<close>

fun rotate_all :: "canvas \<Rightarrow> (jsnum \<times> jsnum) list \<Rightarrow> orbit \<Rightarrow> orbit" where
  "rotate_all element [] s = s"
| "rotate_all element ((dx, dy) # ds) s = rotate_all element ds (handleRotate element dx dy s)"

text \<open>\<open>n\<close> calls of \<open>update\<close> in a row, with no input between them.\<close>

fun update_times :: "nat \<Rightarrow> jsnum option \<Rightarrow> orbit \<Rightarrow> camera \<Rightarrow> orbit \<times> camera" where
  "update_times 0 dt s c = (s, c)"
| "update_times (Suc n) dt s c =
     (case OrbitControls_update dt s c of (s', c') \<Rightarrow> update_times n dt s' c')"

text \<open>
  A matrix is stored by columns, as the vertex shader and the product loop of
  \<open>updateCameraUniforms\<close> read it: the entry of row \<open>i\<close> and column \<open>k\<close> is at index
  \<open>i + 4 * k\<close>. \<open>mat4_apply\<close> is the shader's \<open>camera.viewProjection * worldPosition\<close>,
  for a matrix of sixteen entries; \<open>clip_depth\<close> is the depth \<open>z / w\<close> after the
  perspective division.
\<close>

definition mat4_row :: "jsnum list \<Rightarrow> nat \<Rightarrow> jsnum \<times> jsnum \<times> jsnum \<times> jsnum \<Rightarrow> jsnum" where
  "mat4_row m i v =
     (case v of (x, y, z, w) \<Rightarrow>
        jadd (jadd (jadd (jmul (m ! i) x) (jmul (m ! (i + 4)) y)) (jmul (m ! (i + 8)) z))
          (jmul (m ! (i + 12)) w))"

definition mat4_apply ::
  "jsnum list \<Rightarrow> jsnum \<times> jsnum \<times> jsnum \<times> jsnum \<Rightarrow> jsnum \<times> jsnum \<times> jsnum \<times> jsnum" where
  "mat4_apply m v = (mat4_row m 0 v, mat4_row m 1 v, mat4_row m 2 v, mat4_row m 3 v)"

definition clip_depth :: "jsnum \<times> jsnum \<times> jsnum \<times> jsnum \<Rightarrow> jsnum" where
  "clip_depth v = (case v of (x, y, z, w) \<Rightarrow> jdiv z w)"

text \<open>Sample inputs for a frame: a renderer after \<open>initialize\<close>, a cube with the built-in
  material, the same cube with its material reference missing, and two frames.\<close>

definition sample_canvas :: canvas where
  "sample_canvas = \<lparr> width = Fin 800, height = Fin 600, clientWidth = Fin 800, clientHeight = Fin 600 \<rparr>"

definition sample_renderer :: renderer where
  "sample_renderer =
     \<lparr> r_canvas = sample_canvas, depthTexture = Some 1, depthTextureView = Some 2,
       basicPipeline = 3, cameraBindGroup = 4, cameraUniformBuffer = 5, next_handle = 6 \<rparr>"

definition sample_mesh :: mesh_t where
  "sample_mesh = \<lparr> vertexBuffer = Some 10, indexBuffer = Some 11, indexCount = 36 \<rparr>"

definition sample_material :: material_t where
  "sample_material =
     \<lparr> mat_type = ''basic'', pipeline = None, mat_modelUniformBuffer = None,
       mat_modelBindGroup = None, bindGroup = None \<rparr>"

definition sample_entity :: entity where
  "sample_entity =
     \<lparr> meshRendererComponent =
         Some \<lparr> mesh = Some sample_mesh, material = Some sample_material,
                modelUniformBuffer = Some 12, modelBindGroup = Some 13,
                materialBindGroup = Some 14 \<rparr>,
       transformComponent =
         Some \<lparr> t_position = (Fin 0, Fin 0, Fin 0), t_scale = None \<rparr> \<rparr>"

definition entity_without_material :: entity where
  "entity_without_material =
     \<lparr> meshRendererComponent =
         Some \<lparr> mesh = Some sample_mesh, material = None,
                modelUniformBuffer = Some 15, modelBindGroup = Some 16,
                materialBindGroup = Some 17 \<rparr>,
       transformComponent =
         Some \<lparr> t_position = (Fin 1, Fin 0, Fin 0), t_scale = None \<rparr> \<rparr>"

definition frame_without_texture :: frame where
  "frame_without_texture =
     \<lparr> devicePixelRatio = Fin 1, sceneUpdate = None, currentTexture = Inr None,
       meshEntities = [sample_entity] \<rparr>"

definition sample_frame :: frame where
  "sample_frame =
     \<lparr> devicePixelRatio = Fin 1, sceneUpdate = None, currentTexture = Inr (Some 20),
       meshEntities = [entity_without_material, sample_entity] \<rparr>"

text \<open>
  Scenario A of the specification: a camera at \<open>(0, 0, 5)\<close> looking at the origin, with a
  field of view of 60 degrees, aspect ratio 1, near plane 0.1 and far plane 1000.
\<close>

definition scenario_A :: camera_options where
  "scenario_A =
     camera_defaults
       \<lparr> opt_position := Some (Fin 0, Fin 0, Fin 5),
         opt_target := Some (Fin 0, Fin 0, Fin 0),
         opt_fov := Some (Fin 60),
         opt_aspectRatio := Some (Fin 1),
         opt_nearPlane := Some (Fin (1 / 10)),
         opt_farPlane := Some (Fin 1000) \<rparr>"

section \<open>Facts about the phases of the controller\<close>

lemma updateSphericalFromCamera_fields [simp]:
  "orbit_target (updateSphericalFromCamera s c) = orbit_target s"
  "minDistance (updateSphericalFromCamera s c) = minDistance s"
  "maxDistance (updateSphericalFromCamera s c) = maxDistance s"
  "minPolarAngle (updateSphericalFromCamera s c) = minPolarAngle s"
  "maxPolarAngle (updateSphericalFromCamera s c) = maxPolarAngle s"
  "minAzimuthAngle (updateSphericalFromCamera s c) = minAzimuthAngle s"
  "maxAzimuthAngle (updateSphericalFromCamera s c) = maxAzimuthAngle s"
  "rotateSpeed (updateSphericalFromCamera s c) = rotateSpeed s"
  "zoomSpeed (updateSphericalFromCamera s c) = zoomSpeed s"
  "panSpeed (updateSphericalFromCamera s c) = panSpeed s"
  "enableDamping (updateSphericalFromCamera s c) = enableDamping s"
  "dampingFactor (updateSphericalFromCamera s c) = dampingFactor s"
  "sphericalDelta (updateSphericalFromCamera s c) = sphericalDelta s"
  "scale (updateSphericalFromCamera s c) = scale s"
  "panOffset (updateSphericalFromCamera s c) = panOffset s"
  "zoomChanged (updateSphericalFromCamera s c) = zoomChanged s"
  "autoRotate (updateSphericalFromCamera s c) = autoRotate s"
  "autoRotateSpeed (updateSphericalFromCamera s c) = autoRotateSpeed s"
  by (simp_all add: updateSphericalFromCamera_def Let_def split: prod.splits)

lemma num_or_nonzero: "d \<noteq> Fin 0 \<Longrightarrow> num_or v d \<noteq> Fin 0"
  by (cases v) auto

lemma apply_auto_rotation_fields [simp]:
  "orbit_target (apply_auto_rotation d s) = orbit_target s"
  "panOffset (apply_auto_rotation d s) = panOffset s"
  "spherical (apply_auto_rotation d s) = spherical s"
  "phi (sphericalDelta (apply_auto_rotation d s)) = phi (sphericalDelta s)"
  "minPolarAngle (apply_auto_rotation d s) = minPolarAngle s"
  "maxPolarAngle (apply_auto_rotation d s) = maxPolarAngle s"
  "minDistance (apply_auto_rotation d s) = minDistance s"
  "maxDistance (apply_auto_rotation d s) = maxDistance s"
  "scale (apply_auto_rotation d s) = scale s"
  "zoomChanged (apply_auto_rotation d s) = zoomChanged s"
  "enableDamping (apply_auto_rotation d s) = enableDamping s"
  "dampingFactor (apply_auto_rotation d s) = dampingFactor s"
  "autoRotate (apply_auto_rotation d s) = autoRotate s"
  by (simp_all add: apply_auto_rotation_def)

lemma apply_spherical_delta_fields [simp]:
  "orbit_target (apply_spherical_delta s) = orbit_target s"
  "panOffset (apply_spherical_delta s) = panOffset s"
  "radius (spherical (apply_spherical_delta s)) = radius (spherical s)"
  "phi (spherical (apply_spherical_delta s)) = jadd (phi (spherical s)) (phi (sphericalDelta s))"
  "sphericalDelta (apply_spherical_delta s) = sphericalDelta s"
  "minPolarAngle (apply_spherical_delta s) = minPolarAngle s"
  "maxPolarAngle (apply_spherical_delta s) = maxPolarAngle s"
  "minDistance (apply_spherical_delta s) = minDistance s"
  "maxDistance (apply_spherical_delta s) = maxDistance s"
  "scale (apply_spherical_delta s) = scale s"
  "zoomChanged (apply_spherical_delta s) = zoomChanged s"
  "enableDamping (apply_spherical_delta s) = enableDamping s"
  "dampingFactor (apply_spherical_delta s) = dampingFactor s"
  "autoRotate (apply_spherical_delta s) = autoRotate s"
  by (simp_all add: apply_spherical_delta_def)

lemma restrict_phi_fields [simp]:
  "orbit_target (restrict_phi s) = orbit_target s"
  "panOffset (restrict_phi s) = panOffset s"
  "radius (spherical (restrict_phi s)) = radius (spherical s)"
  "phi (spherical (restrict_phi s)) = jmax (minPolarAngle s) (jmin (maxPolarAngle s) (phi (spherical s)))"
  "sphericalDelta (restrict_phi s) = sphericalDelta s"
  "minPolarAngle (restrict_phi s) = minPolarAngle s"
  "maxPolarAngle (restrict_phi s) = maxPolarAngle s"
  "minDistance (restrict_phi s) = minDistance s"
  "maxDistance (restrict_phi s) = maxDistance s"
  "scale (restrict_phi s) = scale s"
  "zoomChanged (restrict_phi s) = zoomChanged s"
  "enableDamping (restrict_phi s) = enableDamping s"
  "dampingFactor (restrict_phi s) = dampingFactor s"
  "autoRotate (restrict_phi s) = autoRotate s"
  by (simp_all add: restrict_phi_def)

lemma restrict_theta_fields [simp]:
  "orbit_target (restrict_theta s) = orbit_target s"
  "panOffset (restrict_theta s) = panOffset s"
  "radius (spherical (restrict_theta s)) = radius (spherical s)"
  "phi (spherical (restrict_theta s)) = phi (spherical s)"
  "sphericalDelta (restrict_theta s) = sphericalDelta s"
  "minPolarAngle (restrict_theta s) = minPolarAngle s"
  "maxPolarAngle (restrict_theta s) = maxPolarAngle s"
  "minDistance (restrict_theta s) = minDistance s"
  "maxDistance (restrict_theta s) = maxDistance s"
  "scale (restrict_theta s) = scale s"
  "zoomChanged (restrict_theta s) = zoomChanged s"
  "enableDamping (restrict_theta s) = enableDamping s"
  "dampingFactor (restrict_theta s) = dampingFactor s"
  "autoRotate (restrict_theta s) = autoRotate s"
  by (simp_all add: restrict_theta_def)

lemma apply_damping_fields [simp]:
  "orbit_target (apply_damping s) = orbit_target s"
  "panOffset (apply_damping s) = panOffset s"
  "spherical (apply_damping s) = spherical s"
  "minPolarAngle (apply_damping s) = minPolarAngle s"
  "maxPolarAngle (apply_damping s) = maxPolarAngle s"
  "minDistance (apply_damping s) = minDistance s"
  "maxDistance (apply_damping s) = maxDistance s"
  "scale (apply_damping s) = scale s"
  "zoomChanged (apply_damping s) = zoomChanged s"
  "enableDamping (apply_damping s) = enableDamping s"
  "dampingFactor (apply_damping s) = dampingFactor s"
  "autoRotate (apply_damping s) = autoRotate s"
  by (simp_all add: apply_damping_def)

lemma apply_zoom_fields [simp]:
  "orbit_target (apply_zoom s) = orbit_target s"
  "panOffset (apply_zoom s) = panOffset s"
  "phi (spherical (apply_zoom s)) = phi (spherical s)"
  "theta (spherical (apply_zoom s)) = theta (spherical s)"
  "sphericalDelta (apply_zoom s) = sphericalDelta s"
  "minPolarAngle (apply_zoom s) = minPolarAngle s"
  "maxPolarAngle (apply_zoom s) = maxPolarAngle s"
  "minDistance (apply_zoom s) = minDistance s"
  "maxDistance (apply_zoom s) = maxDistance s"
  "enableDamping (apply_zoom s) = enableDamping s"
  "dampingFactor (apply_zoom s) = dampingFactor s"
  "autoRotate (apply_zoom s) = autoRotate s"
  by (simp_all add: apply_zoom_def)

lemma reset_pan_offset_fields [simp]:
  "orbit_target (reset_pan_offset s) = orbit_target s"
  "spherical (reset_pan_offset s) = spherical s"
  "sphericalDelta (reset_pan_offset s) = sphericalDelta s"
  "minPolarAngle (reset_pan_offset s) = minPolarAngle s"
  "maxPolarAngle (reset_pan_offset s) = maxPolarAngle s"
  "minDistance (reset_pan_offset s) = minDistance s"
  "maxDistance (reset_pan_offset s) = maxDistance s"
  "scale (reset_pan_offset s) = scale s"
  "zoomChanged (reset_pan_offset s) = zoomChanged s"
  "enableDamping (reset_pan_offset s) = enableDamping s"
  "dampingFactor (reset_pan_offset s) = dampingFactor s"
  "autoRotate (reset_pan_offset s) = autoRotate s"
  by (simp_all add: reset_pan_offset_def split: prod.splits)

lemma OrbitControls_update_parts:
  "fst (OrbitControls_update dt s c) =
     reset_pan_offset (apply_zoom (apply_damping (restrict_theta (restrict_phi
       (apply_spherical_delta (apply_auto_rotation (val_or dt (Fin (16 / 1000))) s))))))"
  "snd (OrbitControls_update dt s c) =
     updateCameraFromSpherical (apply_zoom (apply_damping (restrict_theta (restrict_phi
       (apply_spherical_delta (apply_auto_rotation (val_or dt (Fin (16 / 1000))) s)))))) c"
  by (simp_all add: OrbitControls_update_def Let_def)

lemma updateCameraFromSpherical_eq:
  "orbit_target s = (t0, t1, t2) \<Longrightarrow> panOffset s = (q0, q1, q2) \<Longrightarrow>
   updateCameraFromSpherical s c =
     lookAt t0 t1 t2
       (setPosition
          (jadd (jmul (jmul (radius (spherical s)) (jsin (phi (spherical s))))
             (jsin (theta (spherical s)))) (jadd t0 q0))
          (jadd (jmul (radius (spherical s)) (jcos (phi (spherical s)))) (jadd t1 q1))
          (jadd (jmul (jmul (radius (spherical s)) (jsin (phi (spherical s))))
             (jcos (theta (spherical s)))) (jadd t2 q2))
          c)"
  by (simp add: updateCameraFromSpherical_def Let_def)

section \<open>The camera\<close>

text \<open>
  Claim C1, at the input of scenario A. \<open>getViewProjectionMatrix\<close> multiplies nothing: it
  returns the \<open>viewProjectionMatrix\<close> array as the constructor made it, sixteen zeros.
  That matrix sends the origin \<open>(0, 0, 0, 1)\<close> to the clip coordinates \<open>(0, 0, 0, 0)\<close>;
  \<open>x\<close> and \<open>y\<close> are zero, but so is \<open>w\<close>, and the depth \<open>z / w\<close> is NaN, inside no
  depth range.
\<close>

theorem getViewProjectionMatrix_scenario_A:
  "fst (getViewProjectionMatrix cv (Camera_new scenario_A)) = replicate 16 (Fin 0)
   \<and> mat4_apply (fst (getViewProjectionMatrix cv (Camera_new scenario_A)))
        (Fin 0, Fin 0, Fin 0, Fin 1) = (Fin 0, Fin 0, Fin 0, Fin 0)
   \<and> clip_depth (mat4_apply (fst (getViewProjectionMatrix cv (Camera_new scenario_A)))
        (Fin 0, Fin 0, Fin 0, Fin 1)) = NaN
   \<and> \<not> jle (Fin (- 1)) (clip_depth (mat4_apply
        (fst (getViewProjectionMatrix cv (Camera_new scenario_A))) (Fin 0, Fin 0, Fin 0, Fin 1)))
   \<and> \<not> jle (clip_depth (mat4_apply
        (fst (getViewProjectionMatrix cv (Camera_new scenario_A))) (Fin 0, Fin 0, Fin 0, Fin 1)))
        (Fin 1)"
  by (simp add: getViewProjectionMatrix_def getViewMatrix_def getProjectionMatrix_def
      updateViewMatrix_def updateProjectionMatrix_def Camera_new_def scenario_A_def
      camera_defaults_def Float32Array16_def mat4_apply_def mat4_row_def clip_depth_def
      inf_signed_def Let_def)

text \<open>
  Claim C3, on the method the class does not have: \<open>Camera\<close> defines no \<open>setUp\<close>, so
  the call \<open>camera.setUp(0, 1, 0)\<close> raises a TypeError and sets no flag.
\<close>

theorem setUp_is_not_a_method:
  "Camera_call3 ''setUp'' (Fin 0) (Fin 1) (Fin 0) (Camera_new camera_defaults) = Inl NotAFunction"
  by (simp add: Camera_call3_def Camera_methods_def)

text \<open>
  Claim C3, as amended: a second \<open>getViewMatrix\<close> with no mutation between returns the
  same cached matrix and leaves the camera as it is (so \<open>updateViewMatrix\<close> does not run
  again); \<open>getViewMatrix\<close> always returns with \<open>viewDirty\<close> false; and each of the three
  mutators the class has, \<open>setPosition\<close>, \<open>setTarget\<close> and \<open>lookAt\<close>, sets
  \<open>viewDirty\<close>, so that the next \<open>getViewMatrix\<close> runs \<open>updateViewMatrix\<close> once more.
\<close>

theorem view_matrix_dirty_flag:
  "fst (getViewMatrix (snd (getViewMatrix c))) = fst (getViewMatrix c)
   \<and> snd (getViewMatrix (snd (getViewMatrix c))) = snd (getViewMatrix c)
   \<and> \<not> viewDirty (snd (getViewMatrix c))
   \<and> Camera_call3 ''setPosition'' x y z c = Inr (setPosition x y z c)
   \<and> Camera_call3 ''setTarget'' x y z c = Inr (setTarget x y z c)
   \<and> Camera_call3 ''lookAt'' x y z c = Inr (lookAt x y z c)
   \<and> viewDirty (setPosition x y z c) \<and> viewDirty (setTarget x y z c) \<and> viewDirty (lookAt x y z c)
   \<and> viewUpdates (snd (getViewMatrix (setPosition x y z c))) = Suc (viewUpdates c)
   \<and> viewUpdates (snd (getViewMatrix (setTarget x y z c))) = Suc (viewUpdates c)
   \<and> viewUpdates (snd (getViewMatrix (lookAt x y z c))) = Suc (viewUpdates c)"
  by (simp add: Camera_call3_def getViewMatrix_def updateViewMatrix_def setPosition_def
      setTarget_def lookAt_def Let_def)

text \<open>
  Claim C10: \<open>Camera.update\<close> ends with \<open>viewDirty\<close> set, whatever the state and with or
  without controls, so the next \<open>getViewMatrix\<close> runs \<open>updateViewMatrix\<close> again. For a
  camera without controls whose view matrix was just read (flag clear), the tick changes
  nothing but the flag.
\<close>

theorem Camera_update_marks_view_dirty:
  "viewDirty (cam (Camera_update dt r))
   \<and> viewUpdates (snd (getViewMatrix (cam (Camera_update dt r))))
       = Suc (viewUpdates (cam (Camera_update dt r)))
   \<and> cam (Camera_update dt \<lparr>cam = snd (getViewMatrix c), controls = None\<rparr>)
       = (snd (getViewMatrix c))\<lparr>viewDirty := True\<rparr>"
  by (simp add: Camera_update_def getViewMatrix_def updateViewMatrix_def Let_def
      split: option.splits prod.splits)

text \<open>
  Claim C9: an option given as zero is replaced by the default of its \<open>||\<close>, in both
  constructors, and no numeric parameter set through \<open>||\<close> is ever zero after
  construction, whatever the options.
\<close>

theorem constructor_zero_option_takes_default:
  "minDistance (OrbitControls_new c (opts\<lparr>o_minDistance := Some (Fin 0)\<rparr>)) = Fin 1
 \<and> maxDistance (OrbitControls_new c (opts\<lparr>o_maxDistance := Some (Fin 0)\<rparr>)) = Fin 100
 \<and> minPolarAngle (OrbitControls_new c (opts\<lparr>o_minPolarAngle := Some (Fin 0)\<rparr>)) = Fin (1 / 10)
 \<and> maxPolarAngle (OrbitControls_new c (opts\<lparr>o_maxPolarAngle := Some (Fin 0)\<rparr>)) = Fin (pi - 1 / 10)
 \<and> minAzimuthAngle (OrbitControls_new c (opts\<lparr>o_minAzimuthAngle := Some (Fin 0)\<rparr>)) = NInf
 \<and> maxAzimuthAngle (OrbitControls_new c (opts\<lparr>o_maxAzimuthAngle := Some (Fin 0)\<rparr>)) = PInf
 \<and> rotateSpeed (OrbitControls_new c (opts\<lparr>o_rotateSpeed := Some (Fin 0)\<rparr>)) = Fin 1
 \<and> zoomSpeed (OrbitControls_new c (opts\<lparr>o_zoomSpeed := Some (Fin 0)\<rparr>)) = Fin 1
 \<and> panSpeed (OrbitControls_new c (opts\<lparr>o_panSpeed := Some (Fin 0)\<rparr>)) = Fin 1
 \<and> dampingFactor (OrbitControls_new c (opts\<lparr>o_dampingFactor := Some (Fin 0)\<rparr>)) = Fin (5 / 100)
 \<and> autoRotateSpeed (OrbitControls_new c (opts\<lparr>o_autoRotateSpeed := Some (Fin 0)\<rparr>)) = Fin 2
 \<and> fov (Camera_new (copts\<lparr>opt_fov := Some (Fin 0)\<rparr>)) = Fin 60
 \<and> nearPlane (Camera_new (copts\<lparr>opt_nearPlane := Some (Fin 0)\<rparr>)) = Fin (1 / 10)
 \<and> farPlane (Camera_new (copts\<lparr>opt_farPlane := Some (Fin 0)\<rparr>)) = Fin 1000
 \<and> cam_size (Camera_new (copts\<lparr>opt_size := Some (Fin 0)\<rparr>)) = Fin 10
 \<and> aspectRatio (Camera_new (copts\<lparr>opt_aspectRatio := Some (Fin 0)\<rparr>)) = Auto
 \<and> minDistance (OrbitControls_new c opts) \<noteq> Fin 0
 \<and> maxDistance (OrbitControls_new c opts) \<noteq> Fin 0
 \<and> minPolarAngle (OrbitControls_new c opts) \<noteq> Fin 0
 \<and> maxPolarAngle (OrbitControls_new c opts) \<noteq> Fin 0
 \<and> minAzimuthAngle (OrbitControls_new c opts) \<noteq> Fin 0
 \<and> maxAzimuthAngle (OrbitControls_new c opts) \<noteq> Fin 0
 \<and> rotateSpeed (OrbitControls_new c opts) \<noteq> Fin 0
 \<and> zoomSpeed (OrbitControls_new c opts) \<noteq> Fin 0
 \<and> panSpeed (OrbitControls_new c opts) \<noteq> Fin 0
 \<and> dampingFactor (OrbitControls_new c opts) \<noteq> Fin 0
 \<and> autoRotateSpeed (OrbitControls_new c opts) \<noteq> Fin 0
 \<and> fov (Camera_new copts) \<noteq> Fin 0
 \<and> nearPlane (Camera_new copts) \<noteq> Fin 0
 \<and> farPlane (Camera_new copts) \<noteq> Fin 0
 \<and> cam_size (Camera_new copts) \<noteq> Fin 0
 \<and> aspectRatio (Camera_new copts) \<noteq> Ratio (Fin 0)"
proof -
  have p: "pi - 1 / 10 \<noteq> (0::real)" using pi_ge_two by simp
  have a: "aspect_or_auto v \<noteq> Ratio (Fin 0)" for v by (cases v) auto
  show ?thesis
    using p a by (simp add: OrbitControls_new_def Camera_new_def num_or_nonzero jsub_def)
qed

section \<open>The orbit controller\<close>

text \<open>
  Claim C4: every \<open>update\<close> leaves the camera at
  \<open>(r sin phi sin theta, r cos phi, r sin phi cos theta) + (target + panOffset)\<close>, for the
  spherical state \<open>(r, phi, theta)\<close> the update ends with and the pan offset it started
  with, written by \<open>setPosition\<close> and then \<open>lookAt(target)\<close>.
\<close>

theorem update_writes_spherical_position:
  "(let s0 = s\<lparr>orbit_target := (t0, t1, t2), panOffset := (q0, q1, q2)\<rparr>;
        s' = fst (OrbitControls_update dt s0 c);
        c' = snd (OrbitControls_update dt s0 c);
        r = radius (spherical s'); ph = phi (spherical s'); th = theta (spherical s');
        x = jadd (jmul (jmul r (jsin ph)) (jsin th)) (jadd t0 q0);
        y = jadd (jmul r (jcos ph)) (jadd t1 q1);
        z = jadd (jmul (jmul r (jsin ph)) (jcos th)) (jadd t2 q2)
    in c' = lookAt t0 t1 t2 (setPosition x y z c)
       \<and> position c' = (x, y, z) \<and> target c' = (t0, t1, t2) \<and> viewDirty c')"
proof -
  define s0 where "s0 = s\<lparr>orbit_target := (t0, t1, t2), panOffset := (q0, q1, q2)\<rparr>"
  define s1 where "s1 = apply_zoom (apply_damping (restrict_theta (restrict_phi
       (apply_spherical_delta (apply_auto_rotation (val_or dt (Fin (16 / 1000))) s0)))))"
  have t: "orbit_target s1 = (t0, t1, t2)" and q: "panOffset s1 = (q0, q1, q2)"
    by (simp_all add: s1_def s0_def)
  have f: "fst (OrbitControls_update dt s0 c) = reset_pan_offset s1"
    and g: "snd (OrbitControls_update dt s0 c) = updateCameraFromSpherical s1 c"
    by (simp_all add: OrbitControls_update_parts s1_def)
  have "spherical (fst (OrbitControls_update dt s0 c)) = spherical s1"
    by (simp add: f)
  then show ?thesis
    unfolding Let_def s0_def [symmetric] g updateCameraFromSpherical_eq [OF t q]
    by (simp add: lookAt_def setPosition_def)
qed

section \<open>The renderer\<close>

lemma Renderer_resize_no_command:
  "filter is_command (snd (Renderer_resize dpr r)) = []"
  by (simp add: Renderer_resize_def createDepthTexture_def Let_def split: option.splits)

lemma Renderer_resize_cameraUniformBuffer:
  "cameraUniformBuffer (fst (Renderer_resize dpr r)) = cameraUniformBuffer r"
  by (simp add: Renderer_resize_def createDepthTexture_def Let_def)

lemma draw_entity_missing:
  assumes m: "missing_reference e"
  shows "draw_entity r e = Inr []"
proof (cases "meshRendererComponent e")
  case None
  then show ?thesis by (simp add: draw_entity_def)
next
  case (Some mr)
  show ?thesis
  proof (cases "mesh mr")
    case None
    with Some show ?thesis by (simp add: draw_entity_def)
  next
    case g: (Some g)
    from m Some g have "material mr = None" by (simp add: missing_reference_def)
    with Some g show ?thesis by (simp add: draw_entity_def)
  qed
qed

lemma draw_loop_skip:
  "draw_entity r e = Inr [] \<Longrightarrow> draw_loop r (xs @ e # ys) = draw_loop r (xs @ ys)"
  by (induction xs) (simp_all split: sum.splits prod.splits)

text \<open>
  Claim C7: when \<open>getCurrentTexture()\<close> returns no texture (and \<open>scene.update\<close>, which
  runs before the surface is asked, has returned), \<open>render\<close> returns normally; the frame
  consists of the resize check, the scene update, the upload of the camera uniforms and
  the logged error, and holds no command: no encoder is created, nothing is recorded and
  nothing is submitted.
\<close>

theorem render_without_current_texture:
  assumes "currentTexture f = Inr None" and "sceneUpdate f = None"
  shows "snd (snd (render r f)) = Returned
    \<and> fst (snd (render r f)) =
        snd (Renderer_resize (devicePixelRatio f) r) @
          [SceneUpdate, WriteBuffer (Some (cameraUniformBuffer r)),
           ConsoleError ''No current texture available.'']
    \<and> filter is_command (fst (snd (render r f))) = []"
proof -
  obtain r1 ev where rs: "Renderer_resize (devicePixelRatio f) r = (r1, ev)"
    by (cases "Renderer_resize (devicePixelRatio f) r")
  have b: "cameraUniformBuffer r1 = cameraUniformBuffer r"
    using Renderer_resize_cameraUniformBuffer [of "devicePixelRatio f" r] rs by simp
  have n: "filter is_command ev = []"
    using Renderer_resize_no_command [of "devicePixelRatio f" r] rs by simp
  have "render r f =
          (r1, ev @ [SceneUpdate, WriteBuffer (Some (cameraUniformBuffer r)),
                     ConsoleError ''No current texture available.''], Returned)"
    using assms rs b by (simp add: render_def render_try_def)
  then show ?thesis using rs n by simp
qed

text \<open>The frame without a texture, on the sample renderer.\<close>

theorem render_without_current_texture_witness:
  "currentTexture frame_without_texture = Inr None
   \<and> sceneUpdate frame_without_texture = None
   \<and> snd (render sample_renderer frame_without_texture) =
       ([SceneUpdate, WriteBuffer (Some 5), ConsoleError ''No current texture available.''],
        Returned)"
proof -
  have h1: "currentTexture frame_without_texture = Inr None"
    and h2: "sceneUpdate frame_without_texture = None"
    by (simp_all add: frame_without_texture_def)
  have r: "Renderer_resize (devicePixelRatio frame_without_texture) sample_renderer
           = (sample_renderer, [])"
    by (simp add: Renderer_resize_def frame_without_texture_def sample_renderer_def
        sample_canvas_def strict_neq_def Let_def)
  have b: "cameraUniformBuffer sample_renderer = 5"
    by (simp add: sample_renderer_def)
  show ?thesis
    using render_without_current_texture [OF h1 h2, of sample_renderer] h1 h2 r b
    by (simp add: prod_eq_iff)
qed

text \<open>
  Claim C8: an entity without a mesh renderer, or whose mesh or material reference is
  missing, is passed over by the loop without an exception and without an event; the loop
  and the whole frame are what they are without that entity, wherever it stands in the
  list.
\<close>

theorem missing_reference_is_skipped:
  assumes "missing_reference e"
  shows "draw_entity r e = Inr []
    \<and> draw_loop r (xs @ e # ys) = draw_loop r (xs @ ys)
    \<and> render r (f\<lparr>meshEntities := xs @ e # ys\<rparr>) = render r (f\<lparr>meshEntities := xs @ ys\<rparr>)"
proof -
  have d: "draw_entity r e = Inr []"
    using assms by (rule draw_entity_missing)
  have l: "draw_loop r' (xs @ e # ys) = draw_loop r' (xs @ ys)" for r'
    using assms by (simp add: draw_entity_missing draw_loop_skip)
  have t: "render_try r' (f\<lparr>meshEntities := xs @ e # ys\<rparr>)
        = render_try r' (f\<lparr>meshEntities := xs @ ys\<rparr>)" for r'
    by (simp add: render_try_def l split: sum.splits option.splits)
  have "render r (f\<lparr>meshEntities := xs @ e # ys\<rparr>)
             = render r (f\<lparr>meshEntities := xs @ ys\<rparr>)"
    by (simp add: render_def t split: prod.splits option.splits)
  with d l show ?thesis by simp
qed

text \<open>
  A frame of two cubes, the first without its material: the frame records and submits
  the draw of the second cube.
\<close>

theorem missing_reference_is_skipped_witness:
  "missing_reference entity_without_material
   \<and> draw_entity sample_renderer entity_without_material = Inr []
   \<and> draw_loop sample_renderer [entity_without_material, sample_entity]
       = draw_loop sample_renderer [sample_entity]
   \<and> snd (render sample_renderer sample_frame) =
       ([SceneUpdate, WriteBuffer (Some 5), CreateCommandEncoder, BeginRenderPass 20 2,
         SetViewport, SetScissorRect, SetPipeline 3, SetBindGroup 0 (Some 4),
         WriteBuffer (Some 12), SetPipeline 3, SetBindGroup 0 (Some 4),
         SetBindGroup 1 (Some 13), SetBindGroup 2 (Some 14),
         SetVertexBuffer (Some 10), SetIndexBuffer (Some 11), DrawIndexed 36,
         EndPass, Finish, ConsoleLog ''Command buffer finished'', Submit],
        Returned)"
proof -
  have h: "missing_reference entity_without_material"
    by (simp add: missing_reference_def entity_without_material_def)
  have e: "sample_frame = sample_frame\<lparr>meshEntities := [] @ entity_without_material # [sample_entity]\<rparr>"
    by (simp add: sample_frame_def)
  have d: "draw_entity sample_renderer sample_entity =
      Inr [WriteBuffer (Some 12), SetPipeline 3, SetBindGroup 0 (Some 4),
         SetBindGroup 1 (Some 13), SetBindGroup 2 (Some 14),
         SetVertexBuffer (Some 10), SetIndexBuffer (Some 11), DrawIndexed 36]"
    by (simp add: draw_entity_def sample_entity_def sample_material_def sample_mesh_def
        sample_renderer_def meshRenderer_updateModelUniforms_def draw_finish_def)
  have r: "Renderer_resize (Fin 1) sample_renderer = (sample_renderer, [])"
    by (simp add: Renderer_resize_def sample_renderer_def sample_canvas_def strict_neq_def
        Let_def)
  have "snd (render sample_renderer (sample_frame\<lparr>meshEntities := [] @ [sample_entity]\<rparr>)) =
       ([SceneUpdate, WriteBuffer (Some 5), CreateCommandEncoder, BeginRenderPass 20 2,
         SetViewport, SetScissorRect, SetPipeline 3, SetBindGroup 0 (Some 4),
         WriteBuffer (Some 12), SetPipeline 3, SetBindGroup 0 (Some 4),
         SetBindGroup 1 (Some 13), SetBindGroup 2 (Some 14),
         SetVertexBuffer (Some 10), SetIndexBuffer (Some 11), DrawIndexed 36,
         EndPass, Finish, ConsoleLog ''Command buffer finished'', Submit],
        Returned)"
    using d r by (simp add: render_def render_try_def sample_frame_def sample_renderer_def)
  then show ?thesis
    using missing_reference_is_skipped [OF h, of sample_renderer "[]" "[sample_entity]" sample_frame]
      h e by simp
qed

section \<open>The input handlers of the controller\<close>

lemma is_fin_inf_signed [simp]: "\<not> is_fin (inf_signed a)"
  by (simp add: inf_signed_def)

lemma is_fin_jneg [simp]: "is_fin (jneg a) = is_fin a"
  by (cases a) simp_all

lemma is_fin_jadd [simp]: "is_fin (jadd a b) \<longleftrightarrow> is_fin a \<and> is_fin b"
  by (cases a; cases b) simp_all

lemma is_fin_jsub [simp]: "is_fin (jsub a b) \<longleftrightarrow> is_fin a \<and> is_fin b"
  by (simp add: jsub_def)

lemma is_fin_jmul [simp]: "is_fin (jmul a b) \<longleftrightarrow> is_fin a \<and> is_fin b"
  by (cases a; cases b) simp_all

lemma is_fin_jdiv_zero [simp]: "\<not> is_fin (jdiv a (Fin 0))"
  by (cases a) simp_all

lemma jsub_Fin [simp]: "jsub (Fin a) (Fin b) = Fin (a - b)"
  by (simp add: jsub_def)

lemma handleRotate_fields [simp]:
  "spherical (handleRotate el dx dy s) = spherical s"
  "minPolarAngle (handleRotate el dx dy s) = minPolarAngle s"
  "maxPolarAngle (handleRotate el dx dy s) = maxPolarAngle s"
  "minDistance (handleRotate el dx dy s) = minDistance s"
  "maxDistance (handleRotate el dx dy s) = maxDistance s"
  "rotateSpeed (handleRotate el dx dy s) = rotateSpeed s"
  "scale (handleRotate el dx dy s) = scale s"
  "zoomChanged (handleRotate el dx dy s) = zoomChanged s"
  by (simp_all add: handleRotate_def Let_def)

lemma handleRotate_theta:
  "theta (sphericalDelta (handleRotate el dx dy s)) =
     jsub (theta (sphericalDelta s))
       (jmul (jdiv (jmul (jmul (Fin 2) (Fin pi)) dx) (clientWidth el)) (rotateSpeed s))"
  by (simp add: handleRotate_def Let_def)

lemma handleRotate_phi:
  "phi (sphericalDelta (handleRotate el dx dy s)) =
     jsub (phi (sphericalDelta s))
       (jmul (jdiv (jmul (jmul (Fin 2) (Fin pi)) dy) (clientHeight el)) (rotateSpeed s))"
  by (simp add: handleRotate_def Let_def)

lemma handlePan_zero_width:
  assumes "clientWidth el = Fin 0"
  shows "\<not> is_fin (fst (panOffset (handlePan el dx dy s c)))"
    and "\<not> is_fin (fst (snd (panOffset (handlePan el dx dy s c))))"
    and "\<not> is_fin (snd (snd (panOffset (handlePan el dx dy s c))))"
  using assms by (simp_all add: handlePan_def Let_def split: prod.splits)

lemma handlePan_zero_height:
  assumes "clientHeight el = Fin 0"
  shows "\<not> is_fin (fst (panOffset (handlePan el dx dy s c)))"
    and "\<not> is_fin (fst (snd (panOffset (handlePan el dx dy s c))))"
    and "\<not> is_fin (snd (snd (panOffset (handlePan el dx dy s c))))"
  using assms by (simp_all add: handlePan_def Let_def split: prod.splits)

lemma sqrt_25: "sqrt 25 = 5"
  by (rule real_sqrt_unique) simp_all

text \<open>
  Claim C6, at a canvas of client size zero: a rotate drag by \<open>(1, 1)\<close> on the default
  controller leaves the pending theta delta at minus infinity, and a pan drag by
  \<open>(1, 1)\<close> leaves every component of \<open>panOffset\<close> NaN. The handlers divide by the
  client width and height as they are.
\<close>

theorem zero_viewport_rotate_and_pan:
  "theta (sphericalDelta (handleRotate hidden_canvas (Fin 1) (Fin 1) sample_controls)) = NInf
   \<and> panOffset (handlePan hidden_canvas (Fin 1) (Fin 1) sample_controls sample_camera)
       = (NaN, NaN, NaN)"
  by (simp add: handleRotate_theta handlePan_def hidden_canvas_def sample_controls_def
      sample_camera_def OrbitControls_new_def updateSphericalFromCamera_def Camera_new_def
      camera_defaults_def orbit_defaults_def inf_signed_def jsub_def sqrt_25 Let_def)

text \<open>
  Claim C6, as amended: \<open>handleRotate\<close> and \<open>handlePan\<close> have no guard on the viewport
  size. When the client width is zero, \<open>handleRotate\<close> leaves the pending theta delta
  not finite (an infinity or NaN) and \<open>handlePan\<close> leaves all three components of
  \<open>panOffset\<close> not finite, for every input delta and every state; when the client height
  is zero the same holds of the pending phi delta and of \<open>panOffset\<close>.
\<close>

theorem viewport_division_is_unguarded:
  "(clientWidth el = Fin 0 \<longrightarrow>
      \<not> is_fin (theta (sphericalDelta (handleRotate el dx dy s)))
      \<and> \<not> is_fin (fst (panOffset (handlePan el dx dy s c)))
      \<and> \<not> is_fin (fst (snd (panOffset (handlePan el dx dy s c))))
      \<and> \<not> is_fin (snd (snd (panOffset (handlePan el dx dy s c)))))
   \<and> (clientHeight el = Fin 0 \<longrightarrow>
      \<not> is_fin (phi (sphericalDelta (handleRotate el dx dy s)))
      \<and> \<not> is_fin (fst (panOffset (handlePan el dx dy s c)))
      \<and> \<not> is_fin (fst (snd (panOffset (handlePan el dx dy s c))))
      \<and> \<not> is_fin (snd (snd (panOffset (handlePan el dx dy s c)))))"
  by (simp add: handleRotate_theta handleRotate_phi handlePan_zero_width handlePan_zero_height)

text \<open>A drag by \<open>(3, 4)\<close> on the canvas of size zero.\<close>

theorem viewport_division_is_unguarded_witness:
  "clientWidth hidden_canvas = Fin 0 \<and> clientHeight hidden_canvas = Fin 0
   \<and> \<not> is_fin (theta (sphericalDelta (handleRotate hidden_canvas (Fin 3) (Fin 4) sample_controls)))
   \<and> \<not> is_fin (phi (sphericalDelta (handleRotate hidden_canvas (Fin 3) (Fin 4) sample_controls)))
   \<and> \<not> is_fin (fst (panOffset (handlePan hidden_canvas (Fin 3) (Fin 4) sample_controls sample_camera)))
   \<and> \<not> is_fin (fst (snd (panOffset (handlePan hidden_canvas (Fin 3) (Fin 4) sample_controls sample_camera))))
   \<and> \<not> is_fin (snd (snd (panOffset (handlePan hidden_canvas (Fin 3) (Fin 4) sample_controls sample_camera))))"
  using viewport_division_is_unguarded
    [of hidden_canvas "Fin 3" "Fin 4" sample_controls sample_camera]
  by (simp add: hidden_canvas_def)

section \<open>Damping\<close>

lemma apply_damping_delta:
  "theta (sphericalDelta (apply_damping s)) =
     (if enableDamping s then jmul (theta (sphericalDelta s)) (jsub (Fin 1) (dampingFactor s))
      else Fin 0)"
  "phi (sphericalDelta (apply_damping s)) =
     (if enableDamping s then jmul (phi (sphericalDelta s)) (jsub (Fin 1) (dampingFactor s))
      else Fin 0)"
  by (simp_all add: apply_damping_def)

lemma apply_auto_rotation_theta:
  "theta (sphericalDelta (apply_auto_rotation d s)) =
     (if autoRotate s
      then jsub (theta (sphericalDelta s))
             (jmul (jmul (jdiv (jdiv (jmul (Fin 2) (Fin pi)) (Fin 60)) (Fin 60))
                (autoRotateSpeed s)) d)
      else theta (sphericalDelta s))"
  by (simp add: apply_auto_rotation_def)

lemma update_delta_phi:
  "phi (sphericalDelta (fst (OrbitControls_update dt s c))) =
     (if enableDamping s then jmul (phi (sphericalDelta s)) (jsub (Fin 1) (dampingFactor s))
      else Fin 0)"
  by (simp add: OrbitControls_update_parts apply_damping_delta)

lemma update_delta_theta:
  "theta (sphericalDelta (fst (OrbitControls_update dt s c))) =
     (if enableDamping s
      then jmul (theta (sphericalDelta (apply_auto_rotation (val_or dt (Fin (16 / 1000))) s)))
             (jsub (Fin 1) (dampingFactor s))
      else Fin 0)"
  by (simp add: OrbitControls_update_parts apply_damping_delta)

lemma update_keeps_settings [simp]:
  "enableDamping (fst (OrbitControls_update dt s c)) = enableDamping s"
  "autoRotate (fst (OrbitControls_update dt s c)) = autoRotate s"
  "dampingFactor (fst (OrbitControls_update dt s c)) = dampingFactor s"
  "minPolarAngle (fst (OrbitControls_update dt s c)) = minPolarAngle s"
  "maxPolarAngle (fst (OrbitControls_update dt s c)) = maxPolarAngle s"
  "minDistance (fst (OrbitControls_update dt s c)) = minDistance s"
  "maxDistance (fst (OrbitControls_update dt s c)) = maxDistance s"
  by (simp_all add: OrbitControls_update_parts)

lemma update_times_last:
  "update_times (Suc n) dt s c =
     OrbitControls_update dt (fst (update_times n dt s c)) (snd (update_times n dt s c))"
proof (induction n arbitrary: s c)
  case 0
  show ?case by (simp split: prod.splits)
next
  case (Suc n)
  obtain s1 c1 where u: "OrbitControls_update dt s c = (s1, c1)"
    by (cases "OrbitControls_update dt s c")
  have "update_times (Suc (Suc n)) dt s c = update_times (Suc n) dt s1 c1"
    by (simp add: u)
  also have "\<dots> = OrbitControls_update dt (fst (update_times n dt s1 c1))
                      (snd (update_times n dt s1 c1))"
    by (rule Suc.IH)
  also have "update_times n dt s1 c1 = update_times (Suc n) dt s c"
    by (simp add: u)
  finally show ?case .
qed

lemma update_times_keeps_settings:
  "enableDamping (fst (update_times n dt s c)) = enableDamping s
   \<and> autoRotate (fst (update_times n dt s c)) = autoRotate s
   \<and> dampingFactor (fst (update_times n dt s c)) = dampingFactor s"
proof (induction n)
  case 0
  show ?case by simp
next
  case (Suc n)
  then show ?case by (simp only: update_times_last update_keeps_settings) 
qed

lemma update_times_phi_step:
  assumes "enableDamping s"
  shows "phi (sphericalDelta (fst (update_times (Suc n) dt s c))) =
           jmul (phi (sphericalDelta (fst (update_times n dt s c))))
             (jsub (Fin 1) (dampingFactor s))"
  using assms update_times_keeps_settings [of n dt s c]
  by (simp only: update_times_last update_delta_phi) simp

lemma update_times_theta_step:
  assumes "enableDamping s" and "\<not> autoRotate s"
  shows "theta (sphericalDelta (fst (update_times (Suc n) dt s c))) =
           jmul (theta (sphericalDelta (fst (update_times n dt s c))))
             (jsub (Fin 1) (dampingFactor s))"
  using assms update_times_keeps_settings [of n dt s c]
  by (simp only: update_times_last update_delta_theta apply_auto_rotation_theta) simp

lemma damped_magnitude:
  assumes "0 \<le> k" and "k \<le> 1" and "is_fin x"
  shows "is_fin (jmul x (jsub (Fin 1) (Fin k)))"
    and "jle (jabs (jmul x (jsub (Fin 1) (Fin k)))) (jabs x)"
proof -
  obtain a where x: "x = Fin a" using assms(3) by (cases x) simp_all
  show "is_fin (jmul x (jsub (Fin 1) (Fin k)))" by (simp add: x)
  have "\<bar>a\<bar> * \<bar>1 - k\<bar> \<le> \<bar>a\<bar> * 1"
    using assms by (intro mult_left_mono) simp_all
  then show "jle (jabs (jmul x (jsub (Fin 1) (Fin k)))) (jabs x)"
    by (simp add: x abs_mult)
qed

lemma update_times_phi_finite:
  assumes "enableDamping s" and "dampingFactor s = Fin k" and "0 \<le> k" and "k \<le> 1"
    and "is_fin (phi (sphericalDelta s))"
  shows "is_fin (phi (sphericalDelta (fst (update_times n dt s c))))"
proof (induction n)
  case 0
  show ?case using assms by simp
next
  case (Suc n)
  show ?case
    unfolding update_times_phi_step [OF assms(1)] assms(2)
    using assms(3,4) Suc by (rule damped_magnitude(1))
qed

lemma update_times_theta_finite:
  assumes "enableDamping s" and "\<not> autoRotate s" and "dampingFactor s = Fin k"
    and "0 \<le> k" and "k \<le> 1" and "is_fin (theta (sphericalDelta s))"
  shows "is_fin (theta (sphericalDelta (fst (update_times n dt s c))))"
proof (induction n)
  case 0
  show ?case using assms by simp
next
  case (Suc n)
  show ?case
    unfolding update_times_theta_step [OF assms(1,2)] assms(3)
    using assms(4,5) Suc by (rule damped_magnitude(1))
qed

text \<open>
  Claim C5, at two inputs. The default controller with \<open>autoRotate\<close> has damping enabled
  and a pending theta delta of zero, whose product with \<open>1 - dampingFactor\<close> is zero;
  after one \<open>update(1)\<close> with no input the pending theta delta is \<open>- 19 pi / 18000\<close>,
  the auto-rotation step times \<open>0.95\<close>. The controller made with \<open>dampingFactor: 1\<close> has
  a pending phi delta of \<open>- pi / 30\<close> after a drag by \<open>(10, 10)\<close>; one \<open>update\<close> leaves
  it exactly zero.
\<close>

theorem damping_claim_fails:
  "enableDamping auto_rotating_controls
   \<and> theta (sphericalDelta auto_rotating_controls) = Fin 0
   \<and> jmul (theta (sphericalDelta auto_rotating_controls))
        (jsub (Fin 1) (dampingFactor auto_rotating_controls)) = Fin 0
   \<and> theta (sphericalDelta (fst (OrbitControls_update (Some (Fin 1)) auto_rotating_controls
        sample_camera))) = Fin (- (19 * pi / 18000))
   \<and> enableDamping (handleRotate sample_canvas (Fin 10) (Fin 10) fully_damped_controls)
   \<and> phi (sphericalDelta (handleRotate sample_canvas (Fin 10) (Fin 10) fully_damped_controls))
       = Fin (- (pi / 30))
   \<and> phi (sphericalDelta (fst (OrbitControls_update None
        (handleRotate sample_canvas (Fin 10) (Fin 10) fully_damped_controls) sample_camera)))
       = Fin 0"
  by (simp add: update_delta_theta update_delta_phi apply_auto_rotation_theta
      auto_rotating_controls_def fully_damped_controls_def handleRotate_def sample_canvas_def
      OrbitControls_new_def orbit_defaults_def Let_def)

text \<open>
  Claim C5, as amended. With damping enabled, one \<open>update\<close> replaces the pending phi delta
  by its product with \<open>1 - dampingFactor\<close>, and the pending theta delta by the product of
  \<open>1 - dampingFactor\<close> with the delta, from which the auto-rotation step
  \<open>2 pi / 60 / 60 * autoRotateSpeed * deltaTime\<close> was subtracted first when \<open>autoRotate\<close>
  is on. So with no input each further \<open>update\<close> multiplies the pending phi delta once
  more by \<open>1 - dampingFactor\<close>, and the pending theta delta too when \<open>autoRotate\<close> is
  off; for a damping factor between 0 and 1 and a finite delta, the magnitude of the delta
  never grows from one update to the next. With damping disabled, one \<open>update\<close> sets both
  pending deltas to zero. Nothing is said on whether a delta reaches zero.
\<close>

theorem damping_decay:
  "(enableDamping s \<longrightarrow>
      phi (sphericalDelta (fst (OrbitControls_update dt s c)))
        = jmul (phi (sphericalDelta s)) (jsub (Fin 1) (dampingFactor s))
      \<and> theta (sphericalDelta (fst (OrbitControls_update dt s c)))
        = jmul (if autoRotate s
                then jsub (theta (sphericalDelta s))
                       (jmul (jmul (jdiv (jdiv (jmul (Fin 2) (Fin pi)) (Fin 60)) (Fin 60))
                          (autoRotateSpeed s)) (val_or dt (Fin (16 / 1000))))
                else theta (sphericalDelta s))
            (jsub (Fin 1) (dampingFactor s))
      \<and> phi (sphericalDelta (fst (update_times (Suc n) dt s c)))
        = jmul (phi (sphericalDelta (fst (update_times n dt s c))))
            (jsub (Fin 1) (dampingFactor s)))
   \<and> (enableDamping s \<and> \<not> autoRotate s \<longrightarrow>
      theta (sphericalDelta (fst (update_times (Suc n) dt s c)))
        = jmul (theta (sphericalDelta (fst (update_times n dt s c))))
            (jsub (Fin 1) (dampingFactor s)))
   \<and> (enableDamping s \<and> dampingFactor s = Fin k \<and> 0 \<le> k \<and> k \<le> 1
        \<and> is_fin (phi (sphericalDelta s)) \<longrightarrow>
      jle (jabs (phi (sphericalDelta (fst (update_times (Suc n) dt s c)))))
        (jabs (phi (sphericalDelta (fst (update_times n dt s c))))))
   \<and> (enableDamping s \<and> \<not> autoRotate s \<and> dampingFactor s = Fin k \<and> 0 \<le> k \<and> k \<le> 1
        \<and> is_fin (theta (sphericalDelta s)) \<longrightarrow>
      jle (jabs (theta (sphericalDelta (fst (update_times (Suc n) dt s c)))))
        (jabs (theta (sphericalDelta (fst (update_times n dt s c))))))
   \<and> (\<not> enableDamping s \<longrightarrow>
      theta (sphericalDelta (fst (OrbitControls_update dt s c))) = Fin 0
      \<and> phi (sphericalDelta (fst (OrbitControls_update dt s c))) = Fin 0)"
proof (intro conjI impI)
  assume h: "enableDamping s \<and> dampingFactor s = Fin k \<and> 0 \<le> k \<and> k \<le> 1
        \<and> is_fin (phi (sphericalDelta s))"
  then have e: "enableDamping s" and d: "dampingFactor s = Fin k"
    and k: "0 \<le> k" "k \<le> 1" by simp_all
  from h have f: "is_fin (phi (sphericalDelta (fst (update_times n dt s c))))"
    by (intro update_times_phi_finite [of s k]) simp_all
  show "jle (jabs (phi (sphericalDelta (fst (update_times (Suc n) dt s c)))))
        (jabs (phi (sphericalDelta (fst (update_times n dt s c)))))"
    unfolding update_times_phi_step [OF e] d by (rule damped_magnitude(2) [OF k f])
next
  assume h: "enableDamping s \<and> \<not> autoRotate s \<and> dampingFactor s = Fin k \<and> 0 \<le> k \<and> k \<le> 1
        \<and> is_fin (theta (sphericalDelta s))"
  then have e: "enableDamping s" and a: "\<not> autoRotate s" and d: "dampingFactor s = Fin k"
    and k: "0 \<le> k" "k \<le> 1" by simp_all
  from h have f: "is_fin (theta (sphericalDelta (fst (update_times n dt s c))))"
    by (intro update_times_theta_finite [of s k]) simp_all
  show "jle (jabs (theta (sphericalDelta (fst (update_times (Suc n) dt s c)))))
        (jabs (theta (sphericalDelta (fst (update_times n dt s c)))))"
    unfolding update_times_theta_step [OF e a] d by (rule damped_magnitude(2) [OF k f])
next
  assume "enableDamping s"
  then show "phi (sphericalDelta (fst (update_times (Suc n) dt s c)))
        = jmul (phi (sphericalDelta (fst (update_times n dt s c))))
            (jsub (Fin 1) (dampingFactor s))"
    by (rule update_times_phi_step)
next
  assume "enableDamping s \<and> \<not> autoRotate s"
  then have e: "enableDamping s" and a: "\<not> autoRotate s" by simp_all
  show "theta (sphericalDelta (fst (update_times (Suc n) dt s c)))
        = jmul (theta (sphericalDelta (fst (update_times n dt s c))))
            (jsub (Fin 1) (dampingFactor s))"
    by (rule update_times_theta_step [OF e a])
qed (simp_all add: update_delta_phi update_delta_theta apply_auto_rotation_theta)

text \<open>
  After a drag by \<open>(10, 10)\<close> on the 800 by 600 canvas: two updates of the default
  controller, and one update of the controller without damping.
\<close>

theorem damping_decay_witness:
  "enableDamping (handleRotate sample_canvas (Fin 10) (Fin 10) sample_controls)
   \<and> \<not> autoRotate (handleRotate sample_canvas (Fin 10) (Fin 10) sample_controls)
   \<and> dampingFactor (handleRotate sample_canvas (Fin 10) (Fin 10) sample_controls) = Fin (1 / 20)
   \<and> (0::real) \<le> 1 / 20 \<and> (1 / 20 :: real) \<le> 1
   \<and> is_fin (phi (sphericalDelta (handleRotate sample_canvas (Fin 10) (Fin 10) sample_controls)))
   \<and> is_fin (theta (sphericalDelta (handleRotate sample_canvas (Fin 10) (Fin 10) sample_controls)))
   \<and> phi (sphericalDelta (fst (OrbitControls_update None
        (handleRotate sample_canvas (Fin 10) (Fin 10) sample_controls) sample_camera)))
       = Fin (- (19 * pi / 600))
   \<and> theta (sphericalDelta (fst (OrbitControls_update None
        (handleRotate sample_canvas (Fin 10) (Fin 10) sample_controls) sample_camera)))
       = Fin (- (19 * pi / 800))
   \<and> phi (sphericalDelta (fst (update_times (Suc 1) None
        (handleRotate sample_canvas (Fin 10) (Fin 10) sample_controls) sample_camera)))
       = jmul (phi (sphericalDelta (fst (update_times 1 None
           (handleRotate sample_canvas (Fin 10) (Fin 10) sample_controls) sample_camera))))
           (Fin (19 / 20))
   \<and> theta (sphericalDelta (fst (update_times (Suc 1) None
        (handleRotate sample_canvas (Fin 10) (Fin 10) sample_controls) sample_camera)))
       = jmul (theta (sphericalDelta (fst (update_times 1 None
           (handleRotate sample_canvas (Fin 10) (Fin 10) sample_controls) sample_camera))))
           (Fin (19 / 20))
   \<and> jle (jabs (phi (sphericalDelta (fst (update_times (Suc 1) None
          (handleRotate sample_canvas (Fin 10) (Fin 10) sample_controls) sample_camera)))))
        (jabs (phi (sphericalDelta (fst (update_times 1 None
          (handleRotate sample_canvas (Fin 10) (Fin 10) sample_controls) sample_camera)))))
   \<and> jle (jabs (theta (sphericalDelta (fst (update_times (Suc 1) None
          (handleRotate sample_canvas (Fin 10) (Fin 10) sample_controls) sample_camera)))))
        (jabs (theta (sphericalDelta (fst (update_times 1 None
          (handleRotate sample_canvas (Fin 10) (Fin 10) sample_controls) sample_camera)))))
   \<and> \<not> enableDamping (handleRotate sample_canvas (Fin 10) (Fin 10) undamped_controls)
   \<and> theta (sphericalDelta (fst (OrbitControls_update None
        (handleRotate sample_canvas (Fin 10) (Fin 10) undamped_controls) sample_camera))) = Fin 0
   \<and> phi (sphericalDelta (fst (OrbitControls_update None
        (handleRotate sample_canvas (Fin 10) (Fin 10) undamped_controls) sample_camera))) = Fin 0"
proof -
  let ?s = "handleRotate sample_canvas (Fin 10) (Fin 10) sample_controls"
  let ?u = "handleRotate sample_canvas (Fin 10) (Fin 10) undamped_controls"
  have s: "enableDamping ?s" "\<not> autoRotate ?s" "dampingFactor ?s = Fin (1 / 20)"
    "theta (sphericalDelta ?s) = Fin (- (pi / 40))" "phi (sphericalDelta ?s) = Fin (- (pi / 30))"
    by (simp_all add: handleRotate_def sample_controls_def sample_canvas_def
        OrbitControls_new_def orbit_defaults_def Let_def)
  have u: "\<not> enableDamping ?u"
    by (simp add: handleRotate_def undamped_controls_def OrbitControls_new_def
        orbit_defaults_def Let_def)
  note w1 = damping_decay [where s = "?s" and dt = None and c = sample_camera
      and n = 1 and k = "1 / 20"]
  note w2 = damping_decay [where s = "?u" and dt = None and c = sample_camera
      and n = 0 and k = 0]
  have m: "jsub (Fin 1) (dampingFactor ?s) = Fin (19 / 20)"
    by (simp add: s)
  have f: "is_fin (phi (sphericalDelta ?s))" "is_fin (theta (sphericalDelta ?s))"
    by (simp_all add: s)
  have k: "(0::real) \<le> 1 / 20" "(1 / 20 :: real) \<le> 1"
    by simp_all
  from w1 s(1,2,3) f k have a1:
    "phi (sphericalDelta (fst (OrbitControls_update None ?s sample_camera)))
       = jmul (phi (sphericalDelta ?s)) (jsub (Fin 1) (dampingFactor ?s))"
    "phi (sphericalDelta (fst (update_times (Suc 1) None ?s sample_camera)))
       = jmul (phi (sphericalDelta (fst (update_times 1 None ?s sample_camera))))
           (jsub (Fin 1) (dampingFactor ?s))"
    "theta (sphericalDelta (fst (update_times (Suc 1) None ?s sample_camera)))
       = jmul (theta (sphericalDelta (fst (update_times 1 None ?s sample_camera))))
           (jsub (Fin 1) (dampingFactor ?s))"
    "jle (jabs (phi (sphericalDelta (fst (update_times (Suc 1) None ?s sample_camera)))))
        (jabs (phi (sphericalDelta (fst (update_times 1 None ?s sample_camera)))))"
    "jle (jabs (theta (sphericalDelta (fst (update_times (Suc 1) None ?s sample_camera)))))
        (jabs (theta (sphericalDelta (fst (update_times 1 None ?s sample_camera)))))"
    by blast+
  from w1 s(1) have
    "theta (sphericalDelta (fst (OrbitControls_update None ?s sample_camera)))
       = jmul (if autoRotate ?s
               then jsub (theta (sphericalDelta ?s))
                      (jmul (jmul (jdiv (jdiv (jmul (Fin 2) (Fin pi)) (Fin 60)) (Fin 60))
                         (autoRotateSpeed ?s)) (val_or None (Fin (16 / 1000))))
               else theta (sphericalDelta ?s))
           (jsub (Fin 1) (dampingFactor ?s))"
    by blast
  with s(2) have t1:
    "theta (sphericalDelta (fst (OrbitControls_update None ?s sample_camera)))
       = jmul (theta (sphericalDelta ?s)) (jsub (Fin 1) (dampingFactor ?s))"
    by (simp only: if_False)
  from w2 u have a2:
    "theta (sphericalDelta (fst (OrbitControls_update None ?u sample_camera))) = Fin 0"
    "phi (sphericalDelta (fst (OrbitControls_update None ?u sample_camera))) = Fin 0"
    by blast+
  have v: "phi (sphericalDelta (fst (OrbitControls_update None ?s sample_camera)))
             = Fin (- (19 * pi / 600))"
    "theta (sphericalDelta (fst (OrbitControls_update None ?s sample_camera)))
             = Fin (- (19 * pi / 800))"
    unfolding a1(1) t1 m by (simp_all add: s)
  note all = s(1,2,3) k f v a1(2-5) [unfolded m] u a2
  show ?thesis
    by (intro conjI) (rule all)+
qed

section \<open>Clamping\<close>

lemma clamp_within:
  "jle lo hi \<Longrightarrow> x \<noteq> NaN \<Longrightarrow> jle lo (jmax lo (jmin hi x)) \<and> jle (jmax lo (jmin hi x)) hi"
  by (cases lo; cases hi; cases x) simp_all

lemma clamp_above: "jle lo hi \<Longrightarrow> jle hi x \<Longrightarrow> jmax lo (jmin hi x) = hi"
  by (cases lo; cases hi; cases x) simp_all

lemma clamp_below: "jle lo hi \<Longrightarrow> jle x lo \<Longrightarrow> jmax lo (jmin hi x) = lo"
  by (cases lo; cases hi; cases x) simp_all

lemma handleRotate_only_deltas:
  "handleRotate el dx dy s = s\<lparr>sphericalDelta := sphericalDelta (handleRotate el dx dy s)\<rparr>"
  by (simp add: handleRotate_def Let_def)

lemma rotate_all_only_deltas:
  "rotate_all el ds s = s\<lparr>sphericalDelta := sphericalDelta (rotate_all el ds s)\<rparr>"
proof (induction ds arbitrary: s)
  case Nil
  show ?case by simp
next
  case (Cons d ds)
  obtain dx dy where d: "d = (dx, dy)" by (cases d)
  let ?h = "handleRotate el dx dy s"
  have "rotate_all el ds ?h = ?h\<lparr>sphericalDelta := sphericalDelta (rotate_all el ds ?h)\<rparr>"
    by (rule Cons.IH)
  also have "\<dots> = s\<lparr>sphericalDelta := sphericalDelta (rotate_all el ds ?h)\<rparr>"
    by (subst handleRotate_only_deltas) simp
  finally show ?case by (simp add: d)
qed

lemma update_phi:
  "phi (spherical (fst (OrbitControls_update dt s c))) =
     jmax (minPolarAngle s)
       (jmin (maxPolarAngle s) (jadd (phi (spherical s)) (phi (sphericalDelta s))))"
  by (simp add: OrbitControls_update_parts)

lemma apply_zoom_radius:
  "radius (spherical (apply_zoom s)) =
     (if zoomChanged s
      then jmax (minDistance s) (jmin (maxDistance s) (jdiv (radius (spherical s)) (scale s)))
      else radius (spherical s))"
  by (simp add: apply_zoom_def)

lemma update_radius:
  "radius (spherical (fst (OrbitControls_update dt s c))) =
     (if zoomChanged s
      then jmax (minDistance s) (jmin (maxDistance s) (jdiv (radius (spherical s)) (scale s)))
      else radius (spherical s))"
  by (simp add: OrbitControls_update_parts apply_zoom_radius)

lemma sqrt_40000: "sqrt 40000 = 200"
  by (rule real_sqrt_unique) simp_all

lemma new_on_sample_camera:
  "o_target opts = None \<Longrightarrow>
   spherical (OrbitControls_new sample_camera opts)
     = \<lparr> radius = Fin 5, phi = Fin (pi / 2), theta = Fin 0 \<rparr>"
  by (simp add: OrbitControls_new_def updateSphericalFromCamera_def sample_camera_def
      Camera_new_def camera_defaults_def sqrt_25 atan2_def Let_def)

lemma sample_controls_fields:
  "spherical sample_controls = \<lparr> radius = Fin 5, phi = Fin (pi / 2), theta = Fin 0 \<rparr>"
  "sphericalDelta sample_controls = \<lparr> radius = Fin 0, phi = Fin 0, theta = Fin 0 \<rparr>"
  "rotateSpeed sample_controls = Fin 1"
  "zoomSpeed sample_controls = Fin 1"
  "minPolarAngle sample_controls = Fin (1 / 10)"
  "maxPolarAngle sample_controls = Fin (pi - 1 / 10)"
  "minDistance sample_controls = Fin 1"
  "maxDistance sample_controls = Fin 100"
  "scale sample_controls = Fin 1"
  "\<not> zoomChanged sample_controls"
  by (simp_all add: sample_controls_def new_on_sample_camera orbit_defaults_def)
     (simp_all add: OrbitControls_new_def)

lemma handleZoom_fields [simp]:
  "spherical (handleZoom z s) = spherical s"
  "sphericalDelta (handleZoom z s) = sphericalDelta s"
  "rotateSpeed (handleZoom z s) = rotateSpeed s"
  "zoomSpeed (handleZoom z s) = zoomSpeed s"
  "minPolarAngle (handleZoom z s) = minPolarAngle s"
  "maxPolarAngle (handleZoom z s) = maxPolarAngle s"
  "minDistance (handleZoom z s) = minDistance s"
  "maxDistance (handleZoom z s) = maxDistance s"
  "zoomChanged (handleZoom z s)"
  by (simp_all add: handleZoom_def Let_def)

lemma rotate_all_fields [simp]:
  "spherical (rotate_all el ds s) = spherical s"
  "minPolarAngle (rotate_all el ds s) = minPolarAngle s"
  "maxPolarAngle (rotate_all el ds s) = maxPolarAngle s"
  "minDistance (rotate_all el ds s) = minDistance s"
  "maxDistance (rotate_all el ds s) = maxDistance s"
  "scale (rotate_all el ds s) = scale s"
  "zoomChanged (rotate_all el ds s) = zoomChanged s"
  by (subst rotate_all_only_deltas, simp)+

text \<open>
  Claim C2, at five inputs, each a rotate drag followed by \<open>update\<close>. For a camera at
  distance 200, the default controller has radius 200 and \<open>maxDistance\<close> 100, and the
  radius stays 200: \<open>update\<close> clamps the radius only inside \<open>if (this.zoomChanged)\<close>.
  A drag by \<open>(0, 0)\<close> on a canvas of client height zero leaves the pending phi delta NaN,
  and phi is NaN after the update. With \<open>minPolarAngle: 4\<close> phi becomes 4, above
  \<open>maxPolarAngle = pi - 0.1\<close>. With \<open>minDistance: 200\<close> and a pending zoom the radius
  becomes 200, above \<open>maxDistance\<close>. With \<open>zoomSpeed: Infinity\<close>, a zoom out and a zoom in
  leave the scale NaN, and the radius is NaN after the update.
\<close>

theorem clamping_claim_fails:
  "radius (spherical (fst (OrbitControls_update None
      (rotate_all sample_canvas [(Fin 10, Fin 10)] far_controls) far_camera))) = Fin 200
   \<and> maxDistance (fst (OrbitControls_update None
      (rotate_all sample_canvas [(Fin 10, Fin 10)] far_controls) far_camera)) = Fin 100
   \<and> \<not> jle (Fin 200) (Fin 100)
   \<and> phi (spherical (fst (OrbitControls_update None
      (rotate_all hidden_canvas [(Fin 0, Fin 0)] sample_controls) sample_camera))) = NaN
   \<and> phi (spherical (fst (OrbitControls_update None
      (rotate_all sample_canvas [(Fin 10, Fin 10)] inverted_polar_controls) sample_camera)))
       = Fin 4
   \<and> maxPolarAngle (fst (OrbitControls_update None
      (rotate_all sample_canvas [(Fin 10, Fin 10)] inverted_polar_controls) sample_camera))
       = Fin (pi - 1 / 10)
   \<and> \<not> jle (Fin 4) (Fin (pi - 1 / 10))
   \<and> radius (spherical (fst (OrbitControls_update None
      (rotate_all sample_canvas [(Fin 10, Fin 10)]
         (handleZoom (Fin 1) inverted_distance_controls)) sample_camera))) = Fin 200
   \<and> maxDistance (fst (OrbitControls_update None
      (rotate_all sample_canvas [(Fin 10, Fin 10)]
         (handleZoom (Fin 1) inverted_distance_controls)) sample_camera)) = Fin 100
   \<and> radius (spherical (fst (OrbitControls_update None
      (rotate_all sample_canvas [(Fin 10, Fin 10)]
         (handleZoom (Fin 1) (handleZoom (Fin (- 1)) unbounded_zoom_controls)))
      sample_camera))) = NaN"
proof -
  have a: "radius (spherical (fst (OrbitControls_update None
      (rotate_all sample_canvas [(Fin 10, Fin 10)] far_controls) far_camera))) = Fin 200"
    "maxDistance (fst (OrbitControls_update None
      (rotate_all sample_canvas [(Fin 10, Fin 10)] far_controls) far_camera)) = Fin 100"
    by (simp_all add: update_radius far_controls_def far_camera_def OrbitControls_new_def
        updateSphericalFromCamera_def Camera_new_def camera_defaults_def orbit_defaults_def
        sqrt_40000 Let_def)
  have b: "phi (spherical (fst (OrbitControls_update None
      (rotate_all hidden_canvas [(Fin 0, Fin 0)] sample_controls) sample_camera))) = NaN"
    by (simp add: update_phi handleRotate_phi hidden_canvas_def sample_controls_fields
        inf_signed_def jsub_def)
  have p4: "pi - 1 / 10 < 4" using pi_less_4 by simp
  have m: "max 4 (min (pi - 1 / 10) x) = (4::real)" for x
    using p4 by (simp add: max_def min_def)
  have c: "phi (spherical (fst (OrbitControls_update None
      (rotate_all sample_canvas [(Fin 10, Fin 10)] inverted_polar_controls) sample_camera)))
       = Fin 4"
    "maxPolarAngle (fst (OrbitControls_update None
      (rotate_all sample_canvas [(Fin 10, Fin 10)] inverted_polar_controls) sample_camera))
       = Fin (pi - 1 / 10)"
    by (simp_all add: update_phi handleRotate_phi sample_canvas_def inverted_polar_controls_def
        new_on_sample_camera orbit_defaults_def m)
       (simp_all add: OrbitControls_new_def m)
  have c': "\<not> jle (Fin 4) (Fin (pi - 1 / 10))"
    using p4 by simp
  have d: "radius (spherical (fst (OrbitControls_update None
      (rotate_all sample_canvas [(Fin 10, Fin 10)]
         (handleZoom (Fin 1) inverted_distance_controls)) sample_camera))) = Fin 200"
    "maxDistance (fst (OrbitControls_update None
      (rotate_all sample_canvas [(Fin 10, Fin 10)]
         (handleZoom (Fin 1) inverted_distance_controls)) sample_camera)) = Fin 100"
    by (simp_all add: update_radius inverted_distance_controls_def new_on_sample_camera
        orbit_defaults_def)
       (simp_all add: handleZoom_def OrbitControls_new_def Let_def)
  have e: "radius (spherical (fst (OrbitControls_update None
      (rotate_all sample_canvas [(Fin 10, Fin 10)]
         (handleZoom (Fin 1) (handleZoom (Fin (- 1)) unbounded_zoom_controls)))
      sample_camera))) = NaN"
    by (simp add: update_radius unbounded_zoom_controls_def new_on_sample_camera
        orbit_defaults_def)
       (simp add: handleZoom_def OrbitControls_new_def inf_signed_def Let_def)
  have n: "\<not> jle (Fin 200) (Fin 100)" by simp
  note all = a n b c c' d e
  show ?thesis by (intro conjI) (rule all)+
qed

text \<open>
  Claim C2, as amended. A sequence of rotate drags changes nothing of the controller but
  the pending deltas. Whatever pending deltas \<open>d\<close> a controller \<open>s\<close> holds, \<open>update\<close>
  leaves the four bounds as they are and sets phi to
  \<open>max(minPolarAngle, min(maxPolarAngle, p))\<close>, where \<open>p\<close> is the sum of phi and the
  pending phi delta. When \<open>minPolarAngle <= maxPolarAngle\<close>: if \<open>p\<close> is not NaN, phi lies
  in \<open>[minPolarAngle, maxPolarAngle]\<close> afterwards; if \<open>p\<close> reaches or passes a pole, phi
  is exactly the violated bound. The radius is left as it is when no zoom is pending; when
  a zoom is pending it becomes \<open>max(minDistance, min(maxDistance, q))\<close> for the quotient
  \<open>q\<close> of radius and scale, which lies in \<open>[minDistance, maxDistance]\<close> when
  \<open>minDistance <= maxDistance\<close> and \<open>q\<close> is not NaN.
\<close>

theorem orbit_clamping:
  "rotate_all el ds s = s\<lparr>sphericalDelta := sphericalDelta (rotate_all el ds s)\<rparr>
   \<and> (let t = s\<lparr>sphericalDelta := d\<rparr>;
           t' = fst (OrbitControls_update dt t c);
           p = jadd (phi (spherical s)) (phi d);
           q = jdiv (radius (spherical s)) (scale s)
       in minPolarAngle t' = minPolarAngle s \<and> maxPolarAngle t' = maxPolarAngle s
          \<and> minDistance t' = minDistance s \<and> maxDistance t' = maxDistance s
          \<and> phi (spherical t') = jmax (minPolarAngle s) (jmin (maxPolarAngle s) p)
          \<and> (jle (minPolarAngle s) (maxPolarAngle s) \<and> p \<noteq> NaN \<longrightarrow>
               jle (minPolarAngle s) (phi (spherical t'))
               \<and> jle (phi (spherical t')) (maxPolarAngle s))
          \<and> (jle (minPolarAngle s) (maxPolarAngle s) \<and> jle (maxPolarAngle s) p \<longrightarrow>
               phi (spherical t') = maxPolarAngle s)
          \<and> (jle (minPolarAngle s) (maxPolarAngle s) \<and> jle p (minPolarAngle s) \<longrightarrow>
               phi (spherical t') = minPolarAngle s)
          \<and> (\<not> zoomChanged s \<longrightarrow> radius (spherical t') = radius (spherical s))
          \<and> (zoomChanged s \<longrightarrow>
               radius (spherical t') = jmax (minDistance s) (jmin (maxDistance s) q))
          \<and> (zoomChanged s \<and> jle (minDistance s) (maxDistance s) \<and> q \<noteq> NaN \<longrightarrow>
               jle (minDistance s) (radius (spherical t'))
               \<and> jle (radius (spherical t')) (maxDistance s)))"
proof -
  define t where "t = s\<lparr>sphericalDelta := d\<rparr>"
  define p where "p = jadd (phi (spherical s)) (phi d)"
  define q where "q = jdiv (radius (spherical s)) (scale s)"
  have ph: "phi (spherical (fst (OrbitControls_update dt t c)))
            = jmax (minPolarAngle s) (jmin (maxPolarAngle s) p)"
    by (simp add: update_phi p_def t_def)
  have r: "radius (spherical (fst (OrbitControls_update dt t c))) =
     (if zoomChanged s then jmax (minDistance s) (jmin (maxDistance s) q)
      else radius (spherical s))"
    by (simp add: update_radius q_def t_def)
  have k: "minPolarAngle t = minPolarAngle s" "maxPolarAngle t = maxPolarAngle s"
    "minDistance t = minDistance s" "maxDistance t = maxDistance s"
    by (simp_all add: t_def)
  have "minPolarAngle (fst (OrbitControls_update dt t c)) = minPolarAngle s
      \<and> maxPolarAngle (fst (OrbitControls_update dt t c)) = maxPolarAngle s
      \<and> minDistance (fst (OrbitControls_update dt t c)) = minDistance s
      \<and> maxDistance (fst (OrbitControls_update dt t c)) = maxDistance s
      \<and> phi (spherical (fst (OrbitControls_update dt t c)))
          = jmax (minPolarAngle s) (jmin (maxPolarAngle s) p)
      \<and> (jle (minPolarAngle s) (maxPolarAngle s) \<and> p \<noteq> NaN \<longrightarrow>
           jle (minPolarAngle s) (phi (spherical (fst (OrbitControls_update dt t c))))
           \<and> jle (phi (spherical (fst (OrbitControls_update dt t c)))) (maxPolarAngle s))
      \<and> (jle (minPolarAngle s) (maxPolarAngle s) \<and> jle (maxPolarAngle s) p \<longrightarrow>
           phi (spherical (fst (OrbitControls_update dt t c))) = maxPolarAngle s)
      \<and> (jle (minPolarAngle s) (maxPolarAngle s) \<and> jle p (minPolarAngle s) \<longrightarrow>
           phi (spherical (fst (OrbitControls_update dt t c))) = minPolarAngle s)
      \<and> (\<not> zoomChanged s \<longrightarrow>
           radius (spherical (fst (OrbitControls_update dt t c))) = radius (spherical s))
      \<and> (zoomChanged s \<longrightarrow>
           radius (spherical (fst (OrbitControls_update dt t c)))
             = jmax (minDistance s) (jmin (maxDistance s) q))
      \<and> (zoomChanged s \<and> jle (minDistance s) (maxDistance s) \<and> q \<noteq> NaN \<longrightarrow>
           jle (minDistance s) (radius (spherical (fst (OrbitControls_update dt t c))))
           \<and> jle (radius (spherical (fst (OrbitControls_update dt t c)))) (maxDistance s))"
    using clamp_within [of "minPolarAngle s" "maxPolarAngle s" p]
      clamp_above [of "minPolarAngle s" "maxPolarAngle s" p]
      clamp_below [of "minPolarAngle s" "maxPolarAngle s" p]
      clamp_within [of "minDistance s" "maxDistance s" q]
    by (simp add: ph r k)
  then show ?thesis
    unfolding Let_def t_def p_def q_def
    using rotate_all_only_deltas [of el ds s] by blast
qed

text \<open>
  On the default controller: a drag upwards by the height of the canvas drives phi past
  the upper pole and leaves it at \<open>maxPolarAngle = pi - 0.1\<close>, with the radius unchanged;
  the same drag downwards leaves phi at \<open>minPolarAngle = 0.1\<close>; after a zoom step, the
  update leaves the radius inside \<open>[1, 100]\<close>.
\<close>

theorem orbit_clamping_witness:
  "rotate_all sample_canvas [(Fin 0, Fin (- 600))] sample_controls
     = sample_controls\<lparr>sphericalDelta := \<lparr>radius = Fin 0, phi = Fin (2 * pi), theta = Fin 0\<rparr>\<rparr>
   \<and> jle (minPolarAngle sample_controls) (maxPolarAngle sample_controls)
   \<and> jadd (phi (spherical sample_controls)) (Fin (2 * pi)) \<noteq> NaN
   \<and> jle (maxPolarAngle sample_controls) (jadd (phi (spherical sample_controls)) (Fin (2 * pi)))
   \<and> phi (spherical (fst (OrbitControls_update None
        (rotate_all sample_canvas [(Fin 0, Fin (- 600))] sample_controls) sample_camera)))
       = Fin (pi - 1 / 10)
   \<and> \<not> zoomChanged sample_controls
   \<and> radius (spherical (fst (OrbitControls_update None
        (rotate_all sample_canvas [(Fin 0, Fin (- 600))] sample_controls) sample_camera)))
       = Fin 5
   \<and> rotate_all sample_canvas [(Fin 0, Fin 600)] sample_controls
     = sample_controls\<lparr>sphericalDelta := \<lparr>radius = Fin 0, phi = Fin (- (2 * pi)), theta = Fin 0\<rparr>\<rparr>
   \<and> jle (jadd (phi (spherical sample_controls)) (Fin (- (2 * pi))))
        (minPolarAngle sample_controls)
   \<and> phi (spherical (fst (OrbitControls_update None
        (rotate_all sample_canvas [(Fin 0, Fin 600)] sample_controls) sample_camera)))
       = Fin (1 / 10)
   \<and> zoomChanged (handleZoom (Fin (- 1)) sample_controls)
   \<and> jle (minDistance (handleZoom (Fin (- 1)) sample_controls))
        (maxDistance (handleZoom (Fin (- 1)) sample_controls))
   \<and> jdiv (radius (spherical (handleZoom (Fin (- 1)) sample_controls)))
        (scale (handleZoom (Fin (- 1)) sample_controls)) \<noteq> NaN
   \<and> jle (Fin 1) (radius (spherical (fst (OrbitControls_update None
        (handleZoom (Fin (- 1)) sample_controls) sample_camera))))
   \<and> jle (radius (spherical (fst (OrbitControls_update None
        (handleZoom (Fin (- 1)) sample_controls) sample_camera)))) (Fin 100)"
proof -
  let ?up = "\<lparr>radius = Fin 0, phi = Fin (2 * pi), theta = Fin 0\<rparr>"
  let ?down = "\<lparr>radius = Fin 0, phi = Fin (- (2 * pi)), theta = Fin 0\<rparr>"
  let ?z = "handleZoom (Fin (- 1)) sample_controls"
  have r1: "rotate_all sample_canvas [(Fin 0, Fin (- 600))] sample_controls
            = sample_controls\<lparr>sphericalDelta := ?up\<rparr>"
    by (simp add: handleRotate_def sample_canvas_def sample_controls_fields Let_def)
  have r2: "rotate_all sample_canvas [(Fin 0, Fin 600)] sample_controls
            = sample_controls\<lparr>sphericalDelta := ?down\<rparr>"
    by (simp add: handleRotate_def sample_canvas_def sample_controls_fields Let_def)
  have le: "jle (minPolarAngle sample_controls) (maxPolarAngle sample_controls)"
    using pi_ge_two by (simp add: sample_controls_fields)
  have n1: "jadd (phi (spherical sample_controls)) (phi ?up) \<noteq> NaN"
    by (simp add: sample_controls_fields)
  have p1: "jle (maxPolarAngle sample_controls)
              (jadd (phi (spherical sample_controls)) (phi ?up))"
  proof -
    have "- (1 / 5) \<le> 3 * pi" using pi_ge_zero by linarith
    then show ?thesis by (simp add: sample_controls_fields)
  qed
  have p2: "jle (jadd (phi (spherical sample_controls)) (phi ?down))
              (minPolarAngle sample_controls)"
  proof -
    have "- 1 \<le> 15 * pi" using pi_ge_zero by linarith
    then show ?thesis by (simp add: sample_controls_fields)
  qed
  have nz: "\<not> zoomChanged sample_controls" by (simp add: sample_controls_fields)
  have z: "zoomChanged ?z" by simp
  have zs: "?z = ?z\<lparr>sphericalDelta := sphericalDelta ?z\<rparr>" by simp
  have sc: "scale ?z = Fin (95 / 100)"
    by (simp add: handleZoom_def sample_controls_fields Let_def)
  have zl: "jle (minDistance ?z) (maxDistance ?z)"
    by (simp add: sample_controls_fields)
  have zq: "jdiv (radius (spherical ?z)) (scale ?z) \<noteq> NaN"
    by (simp add: sc sample_controls_fields)
  note w1 = orbit_clamping [where s = sample_controls and d = "?up" and dt = None
      and c = sample_camera and el = sample_canvas and ds = "[]", unfolded Let_def]
  note w2 = orbit_clamping [where s = sample_controls and d = "?down" and dt = None
      and c = sample_camera and el = sample_canvas and ds = "[]", unfolded Let_def]
  note w3 = orbit_clamping [where s = "?z" and d = "sphericalDelta ?z" and dt = None
      and c = sample_camera and el = sample_canvas and ds = "[]", unfolded Let_def,
      folded zs]
  from w1 le p1 have a1: "phi (spherical (fst (OrbitControls_update None
        (sample_controls\<lparr>sphericalDelta := ?up\<rparr>) sample_camera))) = maxPolarAngle sample_controls"
    by blast
  from w1 nz have a2: "radius (spherical (fst (OrbitControls_update None
        (sample_controls\<lparr>sphericalDelta := ?up\<rparr>) sample_camera)))
          = radius (spherical sample_controls)"
    by blast
  from w2 le p2 have a3: "phi (spherical (fst (OrbitControls_update None
        (sample_controls\<lparr>sphericalDelta := ?down\<rparr>) sample_camera))) = minPolarAngle sample_controls"
    by blast
  from w3 z zl zq have a4:
    "jle (minDistance ?z) (radius (spherical (fst (OrbitControls_update None ?z sample_camera))))"
    "jle (radius (spherical (fst (OrbitControls_update None ?z sample_camera)))) (maxDistance ?z)"
    by blast+
  have b1: "phi (spherical (fst (OrbitControls_update None
        (rotate_all sample_canvas [(Fin 0, Fin (- 600))] sample_controls) sample_camera)))
       = Fin (pi - 1 / 10)"
    unfolding r1 a1 by (simp add: sample_controls_fields)
  have b2: "radius (spherical (fst (OrbitControls_update None
        (rotate_all sample_canvas [(Fin 0, Fin (- 600))] sample_controls) sample_camera)))
       = Fin 5"
    unfolding r1 a2 by (simp add: sample_controls_fields)
  have b3: "phi (spherical (fst (OrbitControls_update None
        (rotate_all sample_canvas [(Fin 0, Fin 600)] sample_controls) sample_camera)))
       = Fin (1 / 10)"
    unfolding r2 a3 by (simp add: sample_controls_fields)
  have b4: "jle (Fin 1) (radius (spherical (fst (OrbitControls_update None ?z sample_camera))))"
    "jle (radius (spherical (fst (OrbitControls_update None ?z sample_camera)))) (Fin 100)"
    using a4 by (simp_all add: sample_controls_fields)
  have n1': "jadd (phi (spherical sample_controls)) (Fin (2 * pi)) \<noteq> NaN"
    using n1 by simp
  have p1': "jle (maxPolarAngle sample_controls)
               (jadd (phi (spherical sample_controls)) (Fin (2 * pi)))"
    using p1 by simp
  have p2': "jle (jadd (phi (spherical sample_controls)) (Fin (- (2 * pi))))
               (minPolarAngle sample_controls)"
    using p2 by simp
  note all = r1 le n1' p1' b1 nz b2 r2 p2' b3 z zl zq b4
  show ?thesis by (intro conjI) (rule all)+
qed

end
